theory Spec2Isabelle
  imports Complex_Main
begin

section \<open>Python and pandas values\<close>

text \<open>
  The program is \<^verbatim>\<open>rabi_plan_processor.py\<close>. Its values are dynamically typed; the
  model keeps the runtime class of every value, because \<^verbatim>\<open>convert_types\<close> dispatches on
  it with \<^verbatim>\<open>isinstance\<close>.

  A Python \<^verbatim>\<open>str\<close> is a list of Unicode code points.
\<close>

type_synonym pystr = "nat list"

definition ustr :: "string \<Rightarrow> pystr" where
  "ustr s = map of_char s"

datatype pyerr = ZeroDivisionError | ValueError | TypeError

text \<open>
  Numbers: Python \<^verbatim>\<open>int\<close>, Python \<^verbatim>\<open>float\<close>, \<^verbatim>\<open>numpy.int64\<close>, \<^verbatim>\<open>numpy.float64\<close>, and the
  float not-a-number. A finite float is the rational it denotes. Infinities are not part
  of the model.
\<close>

datatype num = PyInt int | PyFloat rat | NpInt64 int | NpFloat64 rat | NaN

text \<open>
  A \<^verbatim>\<open>pandas.Timestamp\<close> or \<^verbatim>\<open>pandas.NaT\<close>. \<open>Timestamp t\<close> has no time zone: \<open>t\<close> is its
  wall-clock time in nanoseconds since the epoch. \<open>TimestampTz t z\<close> has one: \<open>t\<close> is the
  instant in nanoseconds since the epoch in UTC, \<open>z\<close> the offset from UTC in minutes.
\<close>

datatype tstamp = Timestamp int | TimestampTz int int | NaT

datatype pyval = PyNone | PyStr pystr | Num num | Stamp tstamp

fun num_val :: "num \<Rightarrow> rat option" where
  "num_val (PyInt i) = Some (of_int i)"
| "num_val (PyFloat x) = Some x"
| "num_val (NpInt64 i) = Some (of_int i)"
| "num_val (NpFloat64 x) = Some x"
| "num_val NaN = None"

fun int_val :: "num \<Rightarrow> int option" where
  "int_val (PyInt i) = Some i"
| "int_val (NpInt64 i) = Some i"
| "int_val _ = None"

fun is_numpy :: "num \<Rightarrow> bool" where
  "is_numpy (NpInt64 _) = True"
| "is_numpy (NpFloat64 _) = True"
| "is_numpy _ = False"

subsection \<open>Binary64 rounding\<close>

definition round_half_even :: "rat \<Rightarrow> int" where
  "round_half_even x =
     (let f = \<lfloor>x\<rfloor>; d = x - of_int f
      in if d < 1 / 2 then f else if 1 / 2 < d then f + 1 else if even f then f else f + 1)"

definition pow2 :: "int \<Rightarrow> rat" where
  "pow2 q = (if 0 \<le> q then 2 ^ nat q else 1 / 2 ^ nat (- q))"

text \<open>The number of binary digits of a positive integer.\<close>

function bitlen :: "int \<Rightarrow> int" where
  "bitlen n = (if n \<le> 0 then 0 else 1 + bitlen (n div 2))"
  by pat_completeness auto
termination
  by (relation "measure nat") auto

declare bitlen.simps [simp del]

text \<open>The binary exponent of a positive rational: \<open>pow2 (ilog2 x) \<le> x < pow2 (ilog2 x + 1)\<close>.\<close>

definition ilog2 :: "rat \<Rightarrow> int" where
  "ilog2 x =
     (let (p, q) = quotient_of x;
          d = bitlen p - bitlen q
      in if pow2 d \<le> x then d else d - 1)"

text \<open>
  The result of a float operation is its exact result rounded to the nearest number with a
  53-bit significand, ties to even. Overflow and subnormal numbers are not modelled.
\<close>

definition fl :: "rat \<Rightarrow> rat" where
  "fl x = (if x = 0 then 0 else
     let q = ilog2 \<bar>x\<bar> - 52
     in of_int (round_half_even (x / pow2 q)) * pow2 q)"

subsection \<open>Arithmetic and comparison\<close>

definition wrap64 :: "int \<Rightarrow> int" where
  "wrap64 i = (i + 2 ^ 63) mod 2 ^ 64 - 2 ^ 63"

definition mk_int :: "bool \<Rightarrow> int \<Rightarrow> num" where
  "mk_int np i = (if np then NpInt64 (wrap64 i) else PyInt i)"

definition mk_float :: "bool \<Rightarrow> rat \<Rightarrow> num" where
  "mk_float np x = (if np then NpFloat64 x else PyFloat x)"

text \<open>Every comparison with not-a-number is false.\<close>

definition py_lt :: "num \<Rightarrow> num \<Rightarrow> bool" where
  "py_lt a b = (case (num_val a, num_val b) of (Some x, Some y) \<Rightarrow> x < y | _ \<Rightarrow> False)"

definition py_gt :: "num \<Rightarrow> num \<Rightarrow> bool" where
  "py_gt a b = py_lt b a"

definition py_ge :: "num \<Rightarrow> num \<Rightarrow> bool" where
  "py_ge a b = (case (num_val a, num_val b) of (Some x, Some y) \<Rightarrow> y \<le> x | _ \<Rightarrow> False)"


text \<open>
  The builtins \<^verbatim>\<open>min(a, b)\<close> and \<^verbatim>\<open>max(a, b)\<close> keep the first argument unless the second is
  strictly smaller (greater).
\<close>

definition py_min :: "num \<Rightarrow> num \<Rightarrow> num" where
  "py_min a b = (if py_lt b a then b else a)"

definition py_max :: "num \<Rightarrow> num \<Rightarrow> num" where
  "py_max a b = (if py_gt b a then b else a)"

text \<open>
  True division \<^verbatim>\<open>a / b\<close>. A zero divisor is an error (for numpy operands Python would
  warn and return an infinity, which the model does not have). The quotient of two Python
  ints is correctly rounded; otherwise both operands are converted to floats first.
\<close>

definition py_truediv :: "num \<Rightarrow> num \<Rightarrow> pyerr + num" where
  "py_truediv a b =
     (case (num_val a, num_val b) of
        (Some x, Some y) \<Rightarrow>
          if y = 0 then Inl ZeroDivisionError
          else (case (a, b) of
                  (PyInt _, PyInt _) \<Rightarrow> Inr (PyFloat (fl (x / y)))
                | _ \<Rightarrow> Inr (mk_float (is_numpy a \<or> is_numpy b) (fl (fl x / fl y))))
      | (_, Some y) \<Rightarrow> if y = 0 then Inl ZeroDivisionError else Inr NaN
      | _ \<Rightarrow> Inr NaN)"

definition binop :: "(int \<Rightarrow> int \<Rightarrow> int) \<Rightarrow> (rat \<Rightarrow> rat \<Rightarrow> rat) \<Rightarrow> num \<Rightarrow> num \<Rightarrow> num" where
  "binop fi fr a b =
     (case (int_val a, int_val b) of
        (Some i, Some j) \<Rightarrow> mk_int (is_numpy a \<or> is_numpy b) (fi i j)
      | _ \<Rightarrow> (case (num_val a, num_val b) of
                (Some x, Some y) \<Rightarrow> mk_float (is_numpy a \<or> is_numpy b) (fl (fr (fl x) (fl y)))
              | _ \<Rightarrow> NaN))"

definition py_mul :: "num \<Rightarrow> num \<Rightarrow> num" where
  "py_mul = binop (*) (*)"

definition py_sub :: "num \<Rightarrow> num \<Rightarrow> num" where
  "py_sub = binop (-) (-)"

text \<open>
  \<^verbatim>\<open>round(x, 1)\<close>: an int is returned unchanged; a Python float is rounded correctly to one
  decimal; a \<^verbatim>\<open>numpy.float64\<close> is multiplied by ten, rounded to an integer and divided.
\<close>

fun py_round1 :: "num \<Rightarrow> num" where
  "py_round1 (PyInt i) = PyInt i"
| "py_round1 (NpInt64 i) = NpInt64 i"
| "py_round1 (PyFloat x) = PyFloat (fl (of_int (round_half_even (x * 10)) / 10))"
| "py_round1 (NpFloat64 x) = NpFloat64 (fl (of_int (round_half_even (fl (x * 10))) / 10))"
| "py_round1 NaN = NaN"

subsection \<open>Strings\<close>

fun digits :: "nat \<Rightarrow> pystr" where
  "digits n = (if n < 10 then [48 + n] else digits (n div 10) @ [48 + n mod 10])"

declare digits.simps [simp del]

definition show_int :: "int \<Rightarrow> pystr" where
  "show_int i = (if i < 0 then 45 # digits (nat (- i)) else digits (nat i))"

definition pad :: "nat \<Rightarrow> int \<Rightarrow> pystr" where
  "pad w i = (let ds = digits (nat i) in replicate (w - length ds) 48 @ ds)"

text \<open>The wall-clock time of a Timestamp with a time zone, and the text of its offset.\<close>

definition local_ns :: "int \<Rightarrow> int \<Rightarrow> int" where
  "local_ns t z = t + z * 60000000000"

definition offset_str :: "int \<Rightarrow> pystr" where
  "offset_str z = (if z < 0 then [45] else [43]) @ pad 2 (\<bar>z\<bar> div 60) @ [58] @ pad 2 (\<bar>z\<bar> mod 60)"

text \<open>The format \<^verbatim>\<open>f"{x:.1f}"\<close>: sign, integer part, point, one decimal, ties to even.\<close>

definition format_1f :: "num \<Rightarrow> pystr" where
  "format_1f n =
     (case num_val n of
        None \<Rightarrow> ustr ''nan''
      | Some v \<Rightarrow>
          (let t = nat (round_half_even (\<bar>v\<bar> * 10))
           in (if v < 0 then [45] else []) @ digits (t div 10) @ [46] @ digits (t mod 10)))"

text \<open>The characters \<^verbatim>\<open>str.isspace\<close> accepts, which \<^verbatim>\<open>str.strip()\<close> removes at both ends.\<close>

definition isspace :: "nat \<Rightarrow> bool" where
  "isspace c \<longleftrightarrow>
     (9 \<le> c \<and> c \<le> 13) \<or> (28 \<le> c \<and> c \<le> 32) \<or> c = 133 \<or> c = 160 \<or> c = 5760 \<or>
     (8192 \<le> c \<and> c \<le> 8202) \<or> c = 8232 \<or> c = 8233 \<or> c = 8239 \<or> c = 8287 \<or> c = 12288"

definition strip :: "pystr \<Rightarrow> pystr" where
  "strip s = rev (dropWhile isspace (rev (dropWhile isspace s)))"

text \<open>\<^verbatim>\<open>s.replace(',', '')\<close>\<close>

definition replace_comma :: "pystr \<Rightarrow> pystr" where
  "replace_comma s = filter (\<lambda>c. c \<noteq> 44) s"

subsection \<open>The library functions the program calls\<close>

text \<open>
  The pandas and Python library functions whose results depend on parsing or printing are
  parameters of the model:
  \<^item> \<open>to_numeric s\<close> is \<^verbatim>\<open>pd.to_numeric(s, errors='coerce')\<close> on a string;
  \<^item> \<open>to_datetime dayfirst v\<close> is \<^verbatim>\<open>pd.to_datetime(v, dayfirst=dayfirst)\<close>;
  \<^item> \<open>float_repr x\<close> is \<^verbatim>\<open>str(x)\<close> of a finite float;
  \<^item> \<open>stamp_str t\<close> is \<^verbatim>\<open>str(t)\<close> of a Timestamp with wall-clock time \<open>t\<close>, without the
    offset a time zone adds;
  \<^item> \<open>strftime f t\<close> is \<^verbatim>\<open>t.strftime(f)\<close> of a Timestamp with wall-clock time \<open>t\<close>.
  \<open>Inl\<close> is a raised exception.
\<close>

record pandas =
  to_numeric :: "pystr \<Rightarrow> pyerr + num"
  to_datetime :: "bool \<Rightarrow> pyval \<Rightarrow> pyerr + tstamp"
  float_repr :: "rat \<Rightarrow> pystr"
  stamp_str :: "int \<Rightarrow> pystr"
  strftime :: "pystr \<Rightarrow> int \<Rightarrow> pystr"

text \<open>\<^verbatim>\<open>pd.isna\<close> on a scalar\<close>

fun pd_isna :: "pyval \<Rightarrow> bool" where
  "pd_isna PyNone = True"
| "pd_isna (Num NaN) = True"
| "pd_isna (Stamp NaT) = True"
| "pd_isna _ = False"

text \<open>\<^verbatim>\<open>str(v)\<close>\<close>

fun py_str :: "('a pandas_scheme) \<Rightarrow> pyval \<Rightarrow> pystr" where
  "py_str L PyNone = ustr ''None''"
| "py_str L (PyStr s) = s"
| "py_str L (Num (PyInt i)) = show_int i"
| "py_str L (Num (NpInt64 i)) = show_int i"
| "py_str L (Num (PyFloat x)) = float_repr L x"
| "py_str L (Num (NpFloat64 x)) = float_repr L x"
| "py_str L (Num NaN) = ustr ''nan''"
| "py_str L (Stamp (Timestamp t)) = stamp_str L t"
| "py_str L (Stamp (TimestampTz t z)) = stamp_str L (local_ns t z) @ offset_str z"
| "py_str L (Stamp NaT) = ustr ''NaT''"

section \<open>generate\_sheet2\_data\<close>

text \<open>A row of Sheet 1, with the four columns the program reads.\<close>

record source_row =
  State :: pyval
  Targeted :: pyval
  Start_Date :: pyval
  End_Date :: pyval

text \<open>Lines 37-39: the row is skipped.\<close>

definition skip_row :: "('a pandas_scheme) \<Rightarrow> source_row \<Rightarrow> bool" where
  "skip_row L row \<longleftrightarrow> pd_isna (State row) \<or> strip (py_str L (State row)) = []"

text \<open>Lines 53-59: the target count.\<close>

definition coerce_plots_targeted :: "('a pandas_scheme) \<Rightarrow> pyval \<Rightarrow> num" where
  "coerce_plots_targeted L v =
     (case to_numeric L (replace_comma (py_str L v)) of
        Inl e \<Rightarrow> PyInt 0
      | Inr n \<Rightarrow> if pd_isna (Num n) then PyInt 0 else n)"

text \<open>
  Lines 61-67: the two dates. One \<^verbatim>\<open>try\<close> holds both assignments, and its handler sets
  both variables to \<^verbatim>\<open>None\<close>.
\<close>

definition parse_date :: "('a pandas_scheme) \<Rightarrow> pyval \<Rightarrow> pyerr + tstamp option" where
  "parse_date L v =
     (if \<not> pd_isna v
      then (case to_datetime L True v of Inl e \<Rightarrow> Inl e | Inr t \<Rightarrow> Inr (Some t))
      else Inr None)"

definition parse_dates ::
  "('a pandas_scheme) \<Rightarrow> pyval \<Rightarrow> pyval \<Rightarrow> tstamp option \<times> tstamp option" where
  "parse_dates L start_date end_date =
     (case parse_date L start_date of
        Inl e \<Rightarrow> (None, None)
      | Inr start_date_parsed \<Rightarrow>
          (case parse_date L end_date of
             Inl e \<Rightarrow> (None, None)
           | Inr end_date_parsed \<Rightarrow> (start_date_parsed, end_date_parsed)))"

text \<open>
  The date coercion in the words of the specification, for comparison with \<open>parse_dates\<close>:
  each field on its own, day first, a missing or unparseable value giving no date. A value
  the parser reads as not-a-time is a missing date.
\<close>

definition spec_coerce_date :: "('a pandas_scheme) \<Rightarrow> pyval \<Rightarrow> tstamp option" where
  "spec_coerce_date L v =
     (if pd_isna v then None
      else (case to_datetime L True v of
              Inl e \<Rightarrow> None
            | Inr t \<Rightarrow> if t = NaT then None else Some t))"


text \<open>A value that is present and on which the parser raises.\<close>

definition date_unparseable :: "('a pandas_scheme) \<Rightarrow> pyval \<Rightarrow> bool" where
  "date_unparseable L v \<longleftrightarrow> \<not> pd_isna v \<and> isl (to_datetime L True v)"

text \<open>A statement that may raise, followed by the rest of the block.\<close>

definition bind_err :: "pyerr + 'a \<Rightarrow> ('a \<Rightarrow> pyerr + 'b) \<Rightarrow> pyerr + 'b" where
  "bind_err m f = (case m of Inl e \<Rightarrow> Inl e | Inr x \<Rightarrow> f x)"

definition ns_per_day :: int where
  "ns_per_day = 86400000000000"

text \<open>
  \<^verbatim>\<open>(a - b).days\<close>. The difference of two Timestamps that both have a time zone, or both
  have none, is a Timedelta, whose \<^verbatim>\<open>days\<close> is the floor of the difference in days. The
  difference of one with and one without a time zone raises \<^verbatim>\<open>TypeError\<close>. A difference with
  NaT is NaT, whose \<^verbatim>\<open>days\<close> is not-a-number.
\<close>

fun days_between :: "tstamp \<Rightarrow> tstamp \<Rightarrow> pyerr + num" where
  "days_between (Timestamp a) (Timestamp b) = Inr (PyInt ((a - b) div ns_per_day))"
| "days_between (TimestampTz a z) (TimestampTz b y) = Inr (PyInt ((a - b) div ns_per_day))"
| "days_between (Timestamp a) (TimestampTz b y) = Inl TypeError"
| "days_between (TimestampTz a z) (Timestamp b) = Inl TypeError"
| "days_between NaT b = Inr NaN"
| "days_between a NaT = Inr NaN"

text \<open>
  Lines 73-79. \<^verbatim>\<open>None\<close> is false; a Timestamp and NaT are true, as every datetime object is.
  The two subtractions are outside every \<^verbatim>\<open>try\<close>: what they raise leaves the function.
  \<open>current_date\<close> has no time zone.
\<close>

fun calc_days :: "int \<Rightarrow> tstamp option \<Rightarrow> tstamp option \<Rightarrow> pyerr + num \<times> num" where
  "calc_days current_date (Some start_date_parsed) (Some end_date_parsed) =
     bind_err (days_between end_date_parsed start_date_parsed) (\<lambda>total_days.
     bind_err (days_between (Timestamp current_date) start_date_parsed) (\<lambda>days_elapsed.
     Inr (total_days, py_max (PyInt 0) (py_min days_elapsed total_days))))"
| "calc_days current_date _ _ = Inr (PyInt 0, PyInt 0)"

text \<open>Whether a parsed date is a Timestamp with a time zone.\<close>

fun tz_aware :: "tstamp option \<Rightarrow> bool" where
  "tz_aware (Some (TimestampTz t z)) = True"
| "tz_aware _ = False"

text \<open>The local variables of one iteration, lines 49-100.\<close>

record progress =
  plots_targeted :: num
  start_date_parsed :: "tstamp option"
  end_date_parsed :: "tstamp option"
  total_plots_surveyed :: num
  total_days :: num
  days_elapsed :: num
  required_per_day :: num
  actual_per_day :: num
  required_percentage :: num
  actual_percentage :: num
  gap :: num
  gap_formatted :: pystr

text \<open>The two string literals of lines 98 and 100, as the source file has them.\<close>

definition pos_glyph :: pystr where
  "pos_glyph = [226, 339, 8230]"

definition neg_glyph :: pystr where
  "neg_glyph = [240, 376, 8221, 187]"

definition format_gap :: "num \<Rightarrow> pystr" where
  "format_gap g =
     (if py_ge g (PyInt 0)
      then pos_glyph @ ustr '' +'' @ format_1f g @ ustr ''%''
      else neg_glyph @ format_1f g @ ustr ''%'')"

definition calculate :: "('a pandas_scheme) \<Rightarrow> int \<Rightarrow> source_row \<Rightarrow> pyerr + progress" where
  "calculate L current_date row =
     (let pt = coerce_plots_targeted L (Targeted row);
          (sp, ep) = parse_dates L (Start_Date row) (End_Date row);
          surveyed = PyInt 0
      in bind_err (calc_days current_date sp ep) (\<lambda>(td, de).
         bind_err (if py_gt td (PyInt 0) then py_truediv pt td else Inr (PyInt 0)) (\<lambda>rpd.
         bind_err (if py_gt de (PyInt 0) then py_truediv surveyed de else Inr (PyInt 0)) (\<lambda>apd.
         bind_err (if py_gt td (PyInt 0)
                   then bind_err (py_truediv de td) (\<lambda>q. Inr (py_mul q (PyInt 100)))
                   else Inr (PyInt 0)) (\<lambda>rpc.
         bind_err (if py_gt pt (PyInt 0)
                   then bind_err (py_truediv surveyed pt) (\<lambda>q. Inr (py_mul q (PyInt 100)))
                   else Inr (PyInt 0)) (\<lambda>apc.
         let g = py_sub apc rpc
         in Inr \<lparr> plots_targeted = pt, start_date_parsed = sp, end_date_parsed = ep,
                  total_plots_surveyed = surveyed, total_days = td, days_elapsed = de,
                  required_per_day = rpd, actual_per_day = apd,
                  required_percentage = rpc, actual_percentage = apc,
                  gap = g, gap_formatted = format_gap g \<rparr>))))))"

text \<open>Lines 103-117: the dictionary of one Sheet 2 row, in the order of its keys.\<close>

type_synonym sheet2_row = "(string \<times> pyval) list"

definition sheet2_row :: "source_row \<Rightarrow> progress \<Rightarrow> sheet2_row" where
  "sheet2_row row p =
     [(''a'', State row),
      (''b'', Num (plots_targeted p)),
      (''c'', Num (total_plots_surveyed p)),
      (''d'', Start_Date row),
      (''e'', End_Date row),
      (''days'', Num (days_elapsed p)),
      (''Total Days'', Num (total_days p)),
      (''Days Elapsed'', Num (days_elapsed p)),
      (''Required /day'', Num (py_round1 (required_per_day p))),
      (''Actual /day'', Num (py_round1 (actual_per_day p))),
      (''Required % (Time elapsed)'', Num (py_round1 (required_percentage p))),
      (''Actual % (Survey done)'', Num (py_round1 (actual_percentage p))),
      (''Gap'', PyStr (gap_formatted p))]"

text \<open>One iteration of the loop: nothing for a skipped row, else the row's dictionary.\<close>

definition generate_row ::
  "('a pandas_scheme) \<Rightarrow> int \<Rightarrow> source_row \<Rightarrow> pyerr + sheet2_row option" where
  "generate_row L current_date row =
     (if skip_row L row then Inr None
      else bind_err (calculate L current_date row) (\<lambda>p. Inr (Some (sheet2_row row p))))"

fun generate_rows ::
  "('a pandas_scheme) \<Rightarrow> int \<Rightarrow> source_row list \<Rightarrow> sheet2_row list \<Rightarrow> pyerr + sheet2_row list" where
  "generate_rows L current_date [] sheet2_data = Inr sheet2_data"
| "generate_rows L current_date (row # rows) sheet2_data =
     (case generate_row L current_date row of
        Inl e \<Rightarrow> Inl e
      | Inr None \<Rightarrow> generate_rows L current_date rows sheet2_data
      | Inr (Some r) \<Rightarrow> generate_rows L current_date rows (sheet2_data @ [r]))"

text \<open>
  The function itself: \<^verbatim>\<open>None\<close> for no data frame, else the list built by the loop.
  \<open>current_date\<close> is the value of \<^verbatim>\<open>pd.Timestamp.now()\<close>, read once before the loop.
\<close>

definition generate_sheet2_data ::
  "('a pandas_scheme) \<Rightarrow> int \<Rightarrow> source_row list option \<Rightarrow> pyerr + sheet2_row list option" where
  "generate_sheet2_data L current_date sheet1_df =
     (case sheet1_df of
        None \<Rightarrow> Inr None
      | Some rows \<Rightarrow> bind_err (generate_rows L current_date rows []) (\<lambda>d. Inr (Some d)))"

section \<open>convert\_to\_json\<close>

text \<open>The values \<^verbatim>\<open>json.dumps\<close> receives: null, an integer, a float or a string.\<close>

datatype json = JNull | JInt int | JFloat rat | JStr pystr

text \<open>
  Lines 129-139. The \<^verbatim>\<open>isinstance\<close> tests of the source select by class:
  \<^item> \<^verbatim>\<open>pd.Timestamp\<close>: a Timestamp, with or without a time zone;
  \<^item> \<^verbatim>\<open>(pd.Int64Dtype, int)\<close>: a Python \<^verbatim>\<open>int\<close> only. \<^verbatim>\<open>numpy.int64\<close> is not a subclass of
    \<^verbatim>\<open>int\<close>, and \<^verbatim>\<open>pd.Int64Dtype\<close> is the class of a column type, of which no cell is an
    instance;
  \<^item> \<^verbatim>\<open>float\<close>: a Python \<^verbatim>\<open>float\<close> or a \<^verbatim>\<open>numpy.float64\<close>, which is a subclass of it;
  \<^item> every other value takes the last branch, \<^verbatim>\<open>str(obj)\<close>.
\<close>

definition convert_types :: "('a pandas_scheme) \<Rightarrow> pyval \<Rightarrow> json" where
  "convert_types L obj =
     (if pd_isna obj then JNull
      else (case obj of
              Stamp (Timestamp t) \<Rightarrow> JStr (strftime L (ustr ''%Y-%m-%d %H:%M:%S'') t)
            | Stamp (TimestampTz t z) \<Rightarrow>
                JStr (strftime L (ustr ''%Y-%m-%d %H:%M:%S'') (local_ns t z))
            | Num (PyInt i) \<Rightarrow> (if \<not> pd_isna obj then JInt i else JNull)
            | Num (PyFloat x) \<Rightarrow> (if \<not> pd_isna obj then JFloat x else JNull)
            | Num (NpFloat64 x) \<Rightarrow> (if \<not> pd_isna obj then JFloat x else JNull)
            | _ \<Rightarrow> JStr (py_str L obj)))"

text \<open>Lines 123-145: every value of every row is converted; the keys and their order stay.\<close>

definition convert_row :: "('a pandas_scheme) \<Rightarrow> sheet2_row \<Rightarrow> (string \<times> json) list" where
  "convert_row L row = map (\<lambda>(k, v). (k, convert_types L v)) row"

definition convert_to_json ::
  "('a pandas_scheme) \<Rightarrow> sheet2_row list option \<Rightarrow> (string \<times> json) list list option" where
  "convert_to_json L data = (case data of None \<Rightarrow> None | Some rows \<Rightarrow> Some (map (convert_row L) rows))"

section \<open>An instance of the library functions\<close>

text \<open>
  The scenarios below are run with the following instance of the library parameters. It
  covers the cell contents of the scenarios: decimal integers as target counts, dates
  written \<^verbatim>\<open>DD/MM/YYYY\<close>, with or without a time of day and an offset from UTC, and text
  that is neither. The general theorems do not use it: they hold for every instance.
\<close>

definition is_digit :: "nat \<Rightarrow> bool" where
  "is_digit c \<longleftrightarrow> 48 \<le> c \<and> c \<le> 57"

definition parse_nat :: "pystr \<Rightarrow> nat option" where
  "parse_nat s =
     (if s \<noteq> [] \<and> list_all is_digit s then Some (foldl (\<lambda>a c. 10 * a + (c - 48)) 0 s) else None)"

text \<open>
  A decimal integer, with or without a minus sign, is a \<^verbatim>\<open>numpy.int64\<close>; any other string
  here is not a number, which \<^verbatim>\<open>errors='coerce'\<close> turns into NaN.
\<close>

definition int_literal :: "pystr \<Rightarrow> int option" where
  "int_literal s =
     (case s of
        [] \<Rightarrow> None
      | c # r \<Rightarrow> if c = 45 then map_option (\<lambda>n. - int n) (parse_nat r)
                 else map_option int (parse_nat s))"

definition to_numeric0 :: "pystr \<Rightarrow> pyerr + num" where
  "to_numeric0 s =
     (case int_literal s of
        Some i \<Rightarrow> if - (2 ^ 63) \<le> i \<and> i < 2 ^ 63 then Inr (NpInt64 i) else Inr (NpFloat64 (fl (of_int i)))
      | None \<Rightarrow> Inr NaN)"

definition is_leap :: "int \<Rightarrow> bool" where
  "is_leap y \<longleftrightarrow> y mod 4 = 0 \<and> (y mod 100 \<noteq> 0 \<or> y mod 400 = 0)"

definition days_in_month :: "int \<Rightarrow> int \<Rightarrow> int" where
  "days_in_month y m =
     (if m = 2 then (if is_leap y then 29 else 28)
      else if m = 4 \<or> m = 6 \<or> m = 9 \<or> m = 11 then 30 else 31)"

definition valid_date :: "int \<Rightarrow> int \<Rightarrow> int \<Rightarrow> bool" where
  "valid_date y m d \<longleftrightarrow> 1 \<le> m \<and> m \<le> 12 \<and> 1 \<le> d \<and> d \<le> days_in_month y m"

text \<open>The number of days from 1970-01-01 to a date of the Gregorian calendar.\<close>

definition days_from_civil :: "int \<Rightarrow> int \<Rightarrow> int \<Rightarrow> int" where
  "days_from_civil y m d =
     (let y' = (if m \<le> 2 then y - 1 else y);
          era = y' div 400;
          yoe = y' - era * 400;
          doy = (153 * (if 2 < m then m - 3 else m + 9) + 2) div 5 + d - 1;
          doe = yoe * 365 + yoe div 4 - yoe div 100 + doy
      in era * 146097 + doe - 719468)"

text \<open>The date of a day number, as (year, month, day).\<close>

definition civil_from_days :: "int \<Rightarrow> int \<times> int \<times> int" where
  "civil_from_days z0 =
     (let z = z0 + 719468;
          era = z div 146097;
          doe = z - era * 146097;
          yoe = (doe - doe div 1460 + doe div 36524 - doe div 146096) div 365;
          doy = doe - (365 * yoe + yoe div 4 - yoe div 100);
          mp = (5 * doy + 2) div 153;
          d = doy - (153 * mp + 2) div 5 + 1;
          m = (if mp < 10 then mp + 3 else mp - 9)
      in ((if m \<le> 2 then yoe + era * 400 + 1 else yoe + era * 400), m, d))"

text \<open>Three fields of digits separated by \<^verbatim>\<open>/\<close>.\<close>

definition split_slash :: "pystr \<Rightarrow> (nat \<times> nat \<times> nat) option" where
  "split_slash s =
     (let a = takeWhile (\<lambda>c. c \<noteq> 47) s; r1 = drop (Suc (length a)) s;
          b = takeWhile (\<lambda>c. c \<noteq> 47) r1; c = drop (Suc (length b)) r1
      in case (parse_nat a, parse_nat b, parse_nat c) of
           (Some x, Some y, Some z) \<Rightarrow> Some (x, y, z)
         | _ \<Rightarrow> None)"

definition midnight :: "int \<Rightarrow> int \<Rightarrow> int \<Rightarrow> tstamp" where
  "midnight y m d = Timestamp (days_from_civil y m d * ns_per_day)"

text \<open>
  The time of day \<^verbatim>\<open>HH:MM\<close> in minutes, and the offset in minutes when the text goes on
  with \<^verbatim>\<open>+HH:MM\<close> or \<^verbatim>\<open>-HH:MM\<close>.
\<close>

definition parse_time :: "pystr \<Rightarrow> (int \<times> int option) option" where
  "parse_time r =
     (case (parse_nat (take 2 r), parse_nat (take 2 (drop 3 r))) of
        (Some h, Some m) \<Rightarrow>
          if length r = 5 \<and> r ! 2 = 58 \<and> h < 24 \<and> m < 60 then Some (int (h * 60 + m), None)
          else if length r = 11 \<and> r ! 2 = 58 \<and> r ! 8 = 58 \<and> (r ! 5 = 43 \<or> r ! 5 = 45) \<and>
                  h < 24 \<and> m < 60
          then (case (parse_nat (take 2 (drop 6 r)), parse_nat (drop 9 r)) of
                  (Some oh, Some om) \<Rightarrow>
                    if om < 60
                    then Some (int (h * 60 + m),
                               Some ((if r ! 5 = 43 then 1 else - 1) * int (oh * 60 + om)))
                    else None
                | _ \<Rightarrow> None)
          else None
      | _ \<Rightarrow> None)"

text \<open>The Timestamp of a date and a time of day: with a time zone when there is an offset.\<close>

definition stamp_at :: "int \<Rightarrow> int \<Rightarrow> int \<Rightarrow> int \<times> int option \<Rightarrow> tstamp" where
  "stamp_at y m d tm =
     (case tm of
        (mins, None) \<Rightarrow> Timestamp (days_from_civil y m d * ns_per_day + mins * 60000000000)
      | (mins, Some z) \<Rightarrow>
          TimestampTz (days_from_civil y m d * ns_per_day + (mins - z) * 60000000000) z)"

text \<open>
  A Timestamp is returned as it is, an integer is a number of nanoseconds, the string
  \<^verbatim>\<open>NaT\<close> and the empty string are NaT. A string \<^verbatim>\<open>A/B/YYYY\<close>, alone or followed by a space
  and a time of day, is read in the preferred order (day first when \<open>dayfirst\<close>), or in the
  other order when only that one is a date. Any other string raises.
\<close>

definition to_datetime0 :: "bool \<Rightarrow> pyval \<Rightarrow> pyerr + tstamp" where
  "to_datetime0 dayfirst v =
     (case v of
        Stamp t \<Rightarrow> Inr t
      | PyNone \<Rightarrow> Inr NaT
      | Num n \<Rightarrow> (case num_val n of None \<Rightarrow> Inr NaT | Some x \<Rightarrow> Inr (Timestamp \<lfloor>x\<rfloor>))
      | PyStr s \<Rightarrow>
          if s = [] \<or> s = ustr ''NaT'' then Inr NaT
          else (let dt = takeWhile (\<lambda>c. c \<noteq> 32) s; r = drop (Suc (length dt)) s
                in case split_slash dt of
                     None \<Rightarrow> Inl ValueError
                   | Some (a, b, y) \<Rightarrow>
                       (let d = int (if dayfirst then a else b);
                            m = int (if dayfirst then b else a)
                        in case (if valid_date (int y) m d then Some (m, d)
                                 else if valid_date (int y) d m then Some (d, m) else None) of
                             None \<Rightarrow> Inl ValueError
                           | Some (m', d') \<Rightarrow>
                               if r = [] then Inr (midnight (int y) m' d')
                               else (case parse_time r of
                                       None \<Rightarrow> Inl ValueError
                                     | Some tm \<Rightarrow> Inr (stamp_at (int y) m' d' tm)))))"

text \<open>\<^verbatim>\<open>YYYY-MM-DD HH:MM:SS\<close> of a Timestamp.\<close>

definition render_datetime :: "int \<Rightarrow> pystr" where
  "render_datetime t =
     (let (y, m, d) = civil_from_days (t div ns_per_day);
          s = (t mod ns_per_day) div 1000000000
      in pad 4 y @ [45] @ pad 2 m @ [45] @ pad 2 d @ [32] @
         pad 2 (s div 3600) @ [58] @ pad 2 (s mod 3600 div 60) @ [58] @ pad 2 (s mod 60))"

definition lib0 :: pandas where
  "lib0 = \<lparr> to_numeric = to_numeric0, to_datetime = to_datetime0,
            float_repr = (\<lambda>x. format_1f (PyFloat x)), stamp_str = render_datetime,
            strftime = (\<lambda>f. render_datetime) \<rparr>"

text \<open>The row of the scenario, and midnight of 13 January 2026.\<close>

definition bihar_row :: source_row where
  "bihar_row = \<lparr> State = PyStr (ustr ''Bihar''), Targeted = PyStr (ustr ''1,200''),
                 Start_Date = PyStr (ustr ''01/01/2026''), End_Date = PyStr (ustr ''31/01/2026'') \<rparr>"

definition now_2026_01_13 :: int where
  "now_2026_01_13 = days_from_civil 2026 1 13 * ns_per_day"

text \<open>
  The values of the local variables for the row of the scenario on 13 January 2026, and the
  dictionary built from them.
\<close>

definition bihar_progress :: progress where
  "bihar_progress =
     \<lparr> plots_targeted = NpInt64 1200,
       start_date_parsed = Some (midnight 2026 1 1),
       end_date_parsed = Some (midnight 2026 1 31),
       total_plots_surveyed = PyInt 0, total_days = PyInt 30, days_elapsed = PyInt 12,
       required_per_day = NpFloat64 40, actual_per_day = PyFloat 0,
       required_percentage = PyFloat 40, actual_percentage = NpFloat64 0,
       gap = NpFloat64 (- 40), gap_formatted = neg_glyph @ ustr ''-40.0%'' \<rparr>"

definition bihar_out :: sheet2_row where
  "bihar_out =
     [(''a'', PyStr (ustr ''Bihar'')),
      (''b'', Num (NpInt64 1200)),
      (''c'', Num (PyInt 0)),
      (''d'', PyStr (ustr ''01/01/2026'')),
      (''e'', PyStr (ustr ''31/01/2026'')),
      (''days'', Num (PyInt 12)),
      (''Total Days'', Num (PyInt 30)),
      (''Days Elapsed'', Num (PyInt 12)),
      (''Required /day'', Num (NpFloat64 40)),
      (''Actual /day'', Num (PyFloat 0)),
      (''Required % (Time elapsed)'', Num (PyFloat 40)),
      (''Actual % (Survey done)'', Num (NpFloat64 0)),
      (''Gap'', PyStr (neg_glyph @ ustr ''-40.0%''))]"

text \<open>A row whose target count is not a number and whose end date is missing.\<close>

definition goa_row :: source_row where
  "goa_row = \<lparr> State = PyStr (ustr ''Goa''), Targeted = PyStr (ustr ''abc''),
               Start_Date = PyStr (ustr ''01/01/2026''), End_Date = Num NaN \<rparr>"

definition goa_progress :: progress where
  "goa_progress =
     \<lparr> plots_targeted = PyInt 0,
       start_date_parsed = Some (midnight 2026 1 1),
       end_date_parsed = None,
       total_plots_surveyed = PyInt 0, total_days = PyInt 0, days_elapsed = PyInt 0,
       required_per_day = PyInt 0, actual_per_day = PyInt 0,
       required_percentage = PyInt 0, actual_percentage = PyInt 0,
       gap = PyInt 0, gap_formatted = pos_glyph @ ustr '' +0.0%'' \<rparr>"

definition goa_out :: sheet2_row where
  "goa_out =
     [(''a'', PyStr (ustr ''Goa'')),
      (''b'', Num (PyInt 0)),
      (''c'', Num (PyInt 0)),
      (''d'', PyStr (ustr ''01/01/2026'')),
      (''e'', Num NaN),
      (''days'', Num (PyInt 0)),
      (''Total Days'', Num (PyInt 0)),
      (''Days Elapsed'', Num (PyInt 0)),
      (''Required /day'', Num (PyInt 0)),
      (''Actual /day'', Num (PyInt 0)),
      (''Required % (Time elapsed)'', Num (PyInt 0)),
      (''Actual % (Survey done)'', Num (PyInt 0)),
      (''Gap'', PyStr (pos_glyph @ ustr '' +0.0%''))]"

text \<open>A row whose end date is before its start date.\<close>

definition reversed_row :: source_row where
  "reversed_row = \<lparr> State = PyStr (ustr ''Assam''), Targeted = PyStr (ustr ''1,200''),
                    Start_Date = PyStr (ustr ''31/01/2026''), End_Date = PyStr (ustr ''01/01/2026'') \<rparr>"

definition reversed_out :: sheet2_row where
  "reversed_out =
     [(''a'', PyStr (ustr ''Assam'')),
      (''b'', Num (NpInt64 1200)),
      (''c'', Num (PyInt 0)),
      (''d'', PyStr (ustr ''31/01/2026'')),
      (''e'', PyStr (ustr ''01/01/2026'')),
      (''days'', Num (PyInt 0)),
      (''Total Days'', Num (PyInt (- 30))),
      (''Days Elapsed'', Num (PyInt 0)),
      (''Required /day'', Num (PyInt 0)),
      (''Actual /day'', Num (PyInt 0)),
      (''Required % (Time elapsed)'', Num (PyInt 0)),
      (''Actual % (Survey done)'', Num (NpFloat64 0)),
      (''Gap'', PyStr (pos_glyph @ ustr '' +0.0%''))]"

text \<open>A row whose state is two spaces and a tab, and a row whose target count is missing.\<close>

definition blank_row :: source_row where
  "blank_row = \<lparr> State = PyStr [32, 32, 9], Targeted = PyStr (ustr ''500''),
                 Start_Date = PyStr (ustr ''01/01/2026''), End_Date = PyStr (ustr ''31/01/2026'') \<rparr>"

definition kerala_row :: source_row where
  "kerala_row = \<lparr> State = PyStr (ustr ''Kerala''), Targeted = Num NaN,
                  Start_Date = PyStr (ustr ''01/01/2026''), End_Date = PyStr (ustr ''31/01/2026'') \<rparr>"

text \<open>
  A row whose start date has an offset from UTC, a row whose two dates have one, and a row
  whose end date is the empty text.
\<close>

definition punjab_row :: source_row where
  "punjab_row = \<lparr> State = PyStr (ustr ''Punjab''), Targeted = PyStr (ustr ''1,200''),
                  Start_Date = PyStr (ustr ''01/01/2026 10:00+05:30''),
                  End_Date = PyStr (ustr ''31/01/2026'') \<rparr>"

definition odisha_row :: source_row where
  "odisha_row = \<lparr> State = PyStr (ustr ''Odisha''), Targeted = PyStr (ustr ''1,200''),
                  Start_Date = PyStr (ustr ''01/01/2026 10:00+05:30''),
                  End_Date = PyStr (ustr ''31/01/2026 10:00+05:30'') \<rparr>"

definition sikkim_row :: source_row where
  "sikkim_row = \<lparr> State = PyStr (ustr ''Sikkim''), Targeted = PyStr (ustr ''1,200''),
                  Start_Date = PyStr (ustr ''01/01/2026''), End_Date = PyStr [] \<rparr>"

definition sikkim_out :: sheet2_row where
  "sikkim_out =
     [(''a'', PyStr (ustr ''Sikkim'')),
      (''b'', Num (NpInt64 1200)),
      (''c'', Num (PyInt 0)),
      (''d'', PyStr (ustr ''01/01/2026'')),
      (''e'', PyStr []),
      (''days'', Num (PyInt 12)),
      (''Total Days'', Num NaN),
      (''Days Elapsed'', Num (PyInt 12)),
      (''Required /day'', Num (PyInt 0)),
      (''Actual /day'', Num (PyFloat 0)),
      (''Required % (Time elapsed)'', Num (PyInt 0)),
      (''Actual % (Survey done)'', Num (NpFloat64 0)),
      (''Gap'', PyStr (pos_glyph @ ustr '' +0.0%''))]"

text \<open>10:00 at five and a half hours east of UTC on 1 and 31 January 2026.\<close>

definition start_0530 :: tstamp where
  "start_0530 = stamp_at 2026 1 1 (600, Some 330)"

definition end_0530 :: tstamp where
  "end_0530 = stamp_at 2026 1 31 (600, Some 330)"

section \<open>Properties\<close>

subsection \<open>The clamp of the elapsed days\<close>


lemma bind_err_Inr: "bind_err m f = Inr y \<longleftrightarrow> (\<exists>x. m = Inr x \<and> f x = Inr y)"
  by (cases m) (simp_all add: bind_err_def)

lemma bind_err_Inl: "bind_err m f = Inl e \<longleftrightarrow> m = Inl e \<or> (\<exists>x. m = Inr x \<and> f x = Inl e)"
  by (cases m) (simp_all add: bind_err_def)

lemma days_between_cases:
  "days_between a b = Inl TypeError \<or> days_between a b = Inr NaN \<or>
   (\<exists>t. days_between a b = Inr (PyInt t))"
  by (cases a; cases b) simp_all

lemma days_between_now:
  "days_between (Timestamp now) s =
     (case s of Timestamp b \<Rightarrow> Inr (PyInt ((now - b) div ns_per_day))
              | TimestampTz b z \<Rightarrow> Inl TypeError | NaT \<Rightarrow> Inr NaN)"
  by (cases s) simp_all

lemma py_max_zero:
  "m = NaN \<or> (\<exists>t. m = PyInt t) \<Longrightarrow>
   \<exists>d. py_max (PyInt 0) m = PyInt d \<and> 0 \<le> d \<and> (\<forall>t. m = PyInt t \<longrightarrow> d = max 0 t)"
  by (auto simp: py_max_def py_gt_def py_lt_def)

lemma py_min_cases:
  "a = NaN \<or> (\<exists>t. a = PyInt t) \<Longrightarrow> b = NaN \<or> (\<exists>t. b = PyInt t) \<Longrightarrow>
   py_min a b = NaN \<or> (\<exists>t. py_min a b = PyInt t)"
  by (auto simp: py_min_def)

lemma calc_days_Inr:
  assumes "calc_days now (Some s) (Some e) = Inr (td, de)"
  shows "\<exists>el. days_between e s = Inr td \<and> days_between (Timestamp now) s = Inr el \<and>
              de = py_max (PyInt 0) (py_min el td)"
  using assms by (auto simp: bind_err_Inr)

lemma calc_days_elapsed:
  assumes "calc_days now sp ep = Inr (td, de)"
  shows "\<exists>d. de = PyInt d \<and> 0 \<le> d"
proof (cases sp)
  case None with assms show ?thesis by auto
next
  case (Some s)
  note sp = this
  show ?thesis
  proof (cases ep)
    case None with assms sp show ?thesis by auto
  next
    case (Some e)
    from calc_days_Inr [OF assms [unfolded sp Some]] obtain el
      where td: "days_between e s = Inr td" and el: "days_between (Timestamp now) s = Inr el"
        and de: "de = py_max (PyInt 0) (py_min el td)" by blast
    from td days_between_cases [of e s] have "td = NaN \<or> (\<exists>t. td = PyInt t)" by auto
    moreover from el days_between_cases [of "Timestamp now" s]
    have "el = NaN \<or> (\<exists>t. el = PyInt t)" by auto
    ultimately have "py_min el td = NaN \<or> (\<exists>t. py_min el td = PyInt t)" by (rule py_min_cases [rotated])
    from py_max_zero [OF this] de show ?thesis by auto
  qed
qed

lemma calc_days_total:
  assumes "calc_days now sp ep = Inr (td, de)"
  shows "td = NaN \<or> (\<exists>t. td = PyInt t)"
proof (cases sp)
  case None with assms show ?thesis by auto
next
  case (Some s)
  note sp = this
  show ?thesis
  proof (cases ep)
    case None with assms sp show ?thesis by auto
  next
    case (Some e)
    from calc_days_Inr [OF assms [unfolded sp Some]] days_between_cases [of e s]
    show ?thesis by auto
  qed
qed

lemma calc_days_missing:
  "sp = None \<or> ep = None \<Longrightarrow> calc_days now sp ep = Inr (PyInt 0, PyInt 0)"
  by (cases sp; cases ep) auto

lemma calc_days_both:
  "calc_days now (Some (Timestamp s)) (Some (Timestamp e)) =
     Inr (PyInt ((e - s) div ns_per_day),
          PyInt (max 0 (min ((now - s) div ns_per_day) ((e - s) div ns_per_day))))"
  by (auto simp: bind_err_def py_max_def py_min_def py_gt_def py_lt_def)

lemma calc_days_total_int:
  assumes "calc_days now sp ep = Inr (PyInt t, de)"
  shows "sp = None \<or> ep = None \<or> (\<exists>s e. sp = Some (Timestamp s) \<and> ep = Some (Timestamp e))"
proof (cases sp)
  case None then show ?thesis by simp
next
  case (Some s)
  note sp = this
  show ?thesis
  proof (cases ep)
    case None then show ?thesis by simp
  next
    case (Some e)
    with sp assms show ?thesis by (cases s; cases e) (simp_all add: bind_err_def)
  qed
qed

lemma calc_days_le_total:
  assumes "calc_days now sp ep = Inr (PyInt t, PyInt d)"
  shows "d \<le> max 0 t"
proof -
  from calc_days_total_int [OF assms] show ?thesis
  proof (elim disjE exE conjE)
    assume "sp = None" with assms show ?thesis by simp
  next
    assume "ep = None" with assms show ?thesis by (simp add: calc_days_missing)
  next
    fix s e assume "sp = Some (Timestamp s)" "ep = Some (Timestamp e)"
    with assms have "Inr (PyInt ((e - s) div ns_per_day),
        PyInt (max 0 (min ((now - s) div ns_per_day) ((e - s) div ns_per_day)))) =
        (Inr (PyInt t, PyInt d) :: pyerr + num \<times> num)"
      by (simp only: calc_days_both)
    then show ?thesis by auto
  qed
qed

lemma calc_days_fails_iff:
  "calc_days now sp ep = Inl err \<longleftrightarrow>
     err = TypeError \<and>
     (\<exists>s. sp = Some s \<and> ep \<noteq> None \<and> (tz_aware sp \<or> (s \<noteq> NaT \<and> tz_aware ep)))"
proof (cases sp)
  case None then show ?thesis by simp
next
  case (Some s)
  note sp = this
  show ?thesis
  proof (cases ep)
    case None with sp show ?thesis by simp
  next
    case (Some e)
    with sp show ?thesis by (cases s; cases e) (auto simp: bind_err_def)
  qed
qed


subsection \<open>When the calculation of a row returns\<close>

lemma bind_err_simps: "bind_err (Inr x) f = f x" "bind_err (Inl e) f = Inl e"
  by (simp_all add: bind_err_def)

lemma py_gt_zero: "py_gt b (PyInt 0) \<longleftrightarrow> (\<exists>y. num_val b = Some y \<and> 0 < y)"
  by (cases b) (simp_all add: py_gt_def py_lt_def)

lemma py_truediv_ok:
  assumes "py_gt b (PyInt 0)"
  shows "\<exists>q. py_truediv a b = Inr q \<and> (a \<noteq> NaN \<longrightarrow> q \<noteq> NaN)"
proof -
  from assms obtain y where y: "num_val b = Some y" "0 < y" by (auto simp: py_gt_zero)
  show ?thesis
  proof (cases "num_val a")
    case None
    with y show ?thesis by (cases a) (simp_all add: py_truediv_def)
  next
    case (Some x)
    with y show ?thesis
      by (cases a; cases b) (simp_all add: py_truediv_def mk_float_def)
  qed
qed

lemma cond_div_ok:
  "\<exists>r. (if py_gt b (PyInt 0) then py_truediv a b else Inr (PyInt 0)) = Inr r \<and>
       (\<not> py_gt b (PyInt 0) \<longrightarrow> r = PyInt 0) \<and> (a \<noteq> NaN \<longrightarrow> r \<noteq> NaN)"
  using py_truediv_ok [of b a] by auto

lemma py_mul_100_NaN: "q \<noteq> NaN \<Longrightarrow> py_mul q (PyInt 100) \<noteq> NaN"
  by (cases q) (simp_all add: py_mul_def binop_def mk_int_def mk_float_def)

lemma cond_pct_ok:
  "\<exists>r. (if py_gt b (PyInt 0)
          then bind_err (py_truediv a b) (\<lambda>q. Inr (py_mul q (PyInt 100)))
          else Inr (PyInt 0)) = Inr r \<and>
       (\<not> py_gt b (PyInt 0) \<longrightarrow> r = PyInt 0) \<and> (a \<noteq> NaN \<longrightarrow> r \<noteq> NaN)"
  using py_truediv_ok [of b a] by (auto simp: bind_err_def py_mul_100_NaN)

text \<open>The calculation raises exactly what the two subtractions of lines 74 and 75 raise.\<close>

lemma calculate_Inl:
  "calculate L now row = Inl e \<longleftrightarrow>
     calc_days now (fst (parse_dates L (Start_Date row) (End_Date row)))
                   (snd (parse_dates L (Start_Date row) (End_Date row))) = Inl e"
proof -
  obtain sp ep where pd: "parse_dates L (Start_Date row) (End_Date row) = (sp, ep)"
    by (cases "parse_dates L (Start_Date row) (End_Date row)")
  show ?thesis
  proof (cases "calc_days now sp ep")
    case (Inl x)
    then show ?thesis
      by (simp add: calculate_def Let_def bind_err_def pd)
  next
    case (Inr tdde)
    obtain td de where t: "tdde = (td, de)" by (cases tdde)
    let ?pt = "coerce_plots_targeted L (Targeted row)"
    from cond_div_ok [of td ?pt] obtain rpd
      where 1: "(if py_gt td (PyInt 0) then py_truediv ?pt td else Inr (PyInt 0)) = Inr rpd" by blast
    from cond_div_ok [of de "PyInt 0"] obtain apd
      where 2: "(if py_gt de (PyInt 0) then py_truediv (PyInt 0) de else Inr (PyInt 0)) = Inr apd" by blast
    from cond_pct_ok [of td de] obtain rpc
      where 3: "(if py_gt td (PyInt 0)
            then bind_err (py_truediv de td) (\<lambda>q. Inr (py_mul q (PyInt 100)))
            else Inr (PyInt 0)) = Inr rpc" by blast
    from cond_pct_ok [of ?pt "PyInt 0"] obtain apc
      where 4: "(if py_gt ?pt (PyInt 0)
            then bind_err (py_truediv (PyInt 0) ?pt) (\<lambda>q. Inr (py_mul q (PyInt 100)))
            else Inr (PyInt 0)) = Inr apc" by blast
    have "\<exists>p. calculate L now row = Inr p"
      unfolding calculate_def Let_def pd
      by (simp only: prod.case Inr t 1 2 3 4 bind_err_simps) blast
    with Inr show ?thesis by (auto simp: pd)
  qed
qed



lemma calculate_fields:
  assumes "calculate L now row = Inr p"
  shows "plots_targeted p = coerce_plots_targeted L (Targeted row)"
    and "(start_date_parsed p, end_date_parsed p) = parse_dates L (Start_Date row) (End_Date row)"
    and "calc_days now (start_date_parsed p) (end_date_parsed p) = Inr (total_days p, days_elapsed p)"
    and "total_plots_surveyed p = PyInt 0"
    and "(if py_gt (total_days p) (PyInt 0) then py_truediv (plots_targeted p) (total_days p)
          else Inr (PyInt 0)) = Inr (required_per_day p)"
    and "(if py_gt (days_elapsed p) (PyInt 0) then py_truediv (PyInt 0) (days_elapsed p)
          else Inr (PyInt 0)) = Inr (actual_per_day p)"
    and "(if py_gt (total_days p) (PyInt 0)
          then bind_err (py_truediv (days_elapsed p) (total_days p)) (\<lambda>q. Inr (py_mul q (PyInt 100)))
          else Inr (PyInt 0)) = Inr (required_percentage p)"
    and "(if py_gt (plots_targeted p) (PyInt 0)
          then bind_err (py_truediv (PyInt 0) (plots_targeted p)) (\<lambda>q. Inr (py_mul q (PyInt 100)))
          else Inr (PyInt 0)) = Inr (actual_percentage p)"
    and "gap p = py_sub (actual_percentage p) (required_percentage p)"
    and "gap_formatted p = format_gap (gap p)"
  using assms unfolding calculate_def Let_def
  by (auto simp: bind_err_Inr split: prod.splits)

lemma generate_row_cases:
  "(skip_row L row \<and> generate_row L now row = Inr None) \<or>
   (\<not> skip_row L row \<and> (\<exists>p. calculate L now row = Inr p \<and>
       generate_row L now row = Inr (Some (sheet2_row row p)))) \<or>
   (\<not> skip_row L row \<and> calculate L now row = Inl TypeError \<and>
       generate_row L now row = Inl TypeError)"
proof (cases "calculate L now row")
  case (Inl e)
  then have "e = TypeError" by (simp add: calculate_Inl calc_days_fails_iff)
  with Inl show ?thesis by (simp add: generate_row_def bind_err_def)
next
  case (Inr p)
  then show ?thesis by (simp add: generate_row_def bind_err_def)
qed

lemma generate_row_None: "generate_row L now row = Inr None \<longleftrightarrow> skip_row L row"
  using generate_row_cases [of L row now] by auto

lemma generate_row_Some:
  assumes "generate_row L now row = Inr (Some r)"
  shows "\<not> skip_row L row \<and> (\<exists>p. calculate L now row = Inr p \<and> r = sheet2_row row p)"
  using assms generate_row_cases [of L row now] by auto






lemma sheet2_row_fields:
  "map_of (sheet2_row row p) ''a'' = Some (State row)"
  "map_of (sheet2_row row p) ''b'' = Some (Num (plots_targeted p))"
  "map_of (sheet2_row row p) ''c'' = Some (Num (total_plots_surveyed p))"
  "map_of (sheet2_row row p) ''d'' = Some (Start_Date row)"
  "map_of (sheet2_row row p) ''e'' = Some (End_Date row)"
  "map_of (sheet2_row row p) ''days'' = Some (Num (days_elapsed p))"
  "map_of (sheet2_row row p) ''Total Days'' = Some (Num (total_days p))"
  "map_of (sheet2_row row p) ''Days Elapsed'' = Some (Num (days_elapsed p))"
  "map_of (sheet2_row row p) ''Required /day'' = Some (Num (py_round1 (required_per_day p)))"
  "map_of (sheet2_row row p) ''Actual /day'' = Some (Num (py_round1 (actual_per_day p)))"
  "map_of (sheet2_row row p) ''Required % (Time elapsed)'' = Some (Num (py_round1 (required_percentage p)))"
  "map_of (sheet2_row row p) ''Actual % (Survey done)'' = Some (Num (py_round1 (actual_percentage p)))"
  "map_of (sheet2_row row p) ''Gap'' = Some (PyStr (gap_formatted p))"
  by (simp_all add: sheet2_row_def)

lemma map_of_convert_row:
  "map_of (convert_row L r) k = map_option (convert_types L) (map_of r k)"
  by (induction r) (auto simp: convert_row_def)


subsection \<open>Rounding in the label\<close>

lemma round_half_even_near: "\<bar>of_int (round_half_even x) - x\<bar> \<le> 1 / 2"
proof -
  have "of_int \<lfloor>x\<rfloor> \<le> x" "x < of_int \<lfloor>x\<rfloor> + 1" by linarith+
  then show ?thesis by (auto simp: round_half_even_def Let_def)
qed

lemma round_half_even_nonneg: "0 \<le> x \<Longrightarrow> 0 \<le> round_half_even x"
  by (auto simp: round_half_even_def Let_def)

lemma format_1f_rounds:
  assumes "num_val g = Some v"
  shows "\<exists>t. format_1f g = (if v < 0 then [45] else []) @ digits (t div 10) @ [46] @ digits (t mod 10) \<and>
             \<bar>of_nat t / 10 - \<bar>v\<bar>\<bar> \<le> 1 / 20 \<and> length (digits (t mod 10)) = 1"
proof -
  let ?t = "nat (round_half_even (\<bar>v\<bar> * 10))"
  have nn: "0 \<le> round_half_even (\<bar>v\<bar> * 10)" by (rule round_half_even_nonneg) simp
  then have eq: "(of_nat ?t :: rat) = of_int (round_half_even (\<bar>v\<bar> * 10))" by simp
  have scale: "\<bar>r - w * 10\<bar> \<le> 1 / 2 \<Longrightarrow> \<bar>r / 10 - w\<bar> \<le> 1 / 20" for r w :: rat
    by linarith
  have "\<bar>of_nat ?t / 10 - \<bar>v\<bar>\<bar> \<le> 1 / 20"
    unfolding eq by (rule scale) (rule round_half_even_near)
  moreover have "length (digits (?t mod 10)) = 1"
    by (subst digits.simps) simp
  ultimately show ?thesis
    using assms by (intro exI [of _ ?t]) (simp add: format_1f_def Let_def)
qed

lemma py_sub_NaN: "a \<noteq> NaN \<Longrightarrow> b \<noteq> NaN \<Longrightarrow> py_sub a b \<noteq> NaN"
  by (cases a; cases b) (simp_all add: py_sub_def binop_def mk_int_def mk_float_def)

lemma py_ge_or_lt: "g \<noteq> NaN \<Longrightarrow> py_ge g (PyInt 0) \<noteq> py_lt g (PyInt 0)"
  by (cases g) (auto simp: py_ge_def py_lt_def)

lemma gap_not_NaN:
  assumes "calculate L now row = Inr p"
  shows "gap p \<noteq> NaN"
proof -
  note f = calculate_fields [OF assms]
  from calc_days_elapsed [OF f(3)] have de: "days_elapsed p \<noteq> NaN" by auto
  from cond_pct_ok [of "total_days p" "days_elapsed p"] f(7) de
  have "required_percentage p \<noteq> NaN" by auto
  moreover from cond_pct_ok [of "plots_targeted p" "PyInt 0"] f(8)
  have "actual_percentage p \<noteq> NaN" by auto
  ultimately show ?thesis using f(9) by (simp add: py_sub_NaN)
qed

subsection \<open>The scenarios, evaluated\<close>

lemma ustr_simps: "ustr [] = []" "ustr (c # cs) = of_char c # ustr cs"
  by (simp_all add: ustr_def)

lemma lib0_simps:
  "to_numeric lib0 = to_numeric0" "to_datetime lib0 = to_datetime0"
  "float_repr lib0 = (\<lambda>x. format_1f (PyFloat x))" "stamp_str lib0 = render_datetime"
  "strftime lib0 = (\<lambda>f. render_datetime)"
  by (simp_all add: lib0_def)

lemma to_numeric0_vals:
  "to_numeric0 (ustr ''1200'') = Inr (NpInt64 1200)"
  "to_numeric0 (ustr ''abc'') = Inr NaN"
  "to_numeric0 (ustr ''nan'') = Inr NaN"
  by (simp_all add: to_numeric0_def int_literal_def parse_nat_def is_digit_def ustr_simps)

lemma replace_comma_vals:
  "replace_comma (ustr ''1,200'') = ustr ''1200''"
  "replace_comma (ustr ''abc'') = ustr ''abc''"
  "replace_comma (ustr ''nan'') = ustr ''nan''"
  by (simp_all add: replace_comma_def ustr_simps)

lemma coerce_plots_targeted_vals:
  "coerce_plots_targeted lib0 (PyStr (ustr ''1,200'')) = NpInt64 1200"
  "coerce_plots_targeted lib0 (PyStr (ustr ''abc'')) = PyInt 0"
  "coerce_plots_targeted lib0 (Num NaN) = PyInt 0"
  by (simp_all add: coerce_plots_targeted_def lib0_simps replace_comma_vals to_numeric0_vals)

lemma split_slash_vals:
  "split_slash (ustr ''01/01/2026'') = Some (1, 1, 2026)"
  "split_slash (ustr ''31/01/2026'') = Some (31, 1, 2026)"
  "split_slash (ustr ''02/01/2026'') = Some (2, 1, 2026)"
  "split_slash (ustr ''abc'') = None"
  by (simp_all add: split_slash_def parse_nat_def is_digit_def ustr_simps Let_def)

lemma parse_time_val: "parse_time (ustr ''10:00+05:30'') = Some (600, Some 330)"
  by (simp add: parse_time_def parse_nat_def is_digit_def ustr_simps)

lemma date_part_vals:
  "takeWhile (\<lambda>c. c \<noteq> 32) (ustr ''01/01/2026'') = ustr ''01/01/2026''"
  "takeWhile (\<lambda>c. c \<noteq> 32) (ustr ''31/01/2026'') = ustr ''31/01/2026''"
  "takeWhile (\<lambda>c. c \<noteq> 32) (ustr ''02/01/2026'') = ustr ''02/01/2026''"
  "takeWhile (\<lambda>c. c \<noteq> 32) (ustr ''abc'') = ustr ''abc''"
  "takeWhile (\<lambda>c. c \<noteq> 32) (ustr ''01/01/2026 10:00+05:30'') = ustr ''01/01/2026''"
  "takeWhile (\<lambda>c. c \<noteq> 32) (ustr ''31/01/2026 10:00+05:30'') = ustr ''31/01/2026''"
  "drop 11 (ustr ''01/01/2026 10:00+05:30'') = ustr ''10:00+05:30''"
  "drop 11 (ustr ''31/01/2026 10:00+05:30'') = ustr ''10:00+05:30''"
  "length (ustr ''01/01/2026'') = 10" "length (ustr ''31/01/2026'') = 10"
  "length (ustr ''02/01/2026'') = 10" "length (ustr ''abc'') = 3"
  by (simp_all add: ustr_simps)

lemma to_datetime0_vals:
  "to_datetime0 True (PyStr (ustr ''01/01/2026'')) = Inr (midnight 2026 1 1)"
  "to_datetime0 True (PyStr (ustr ''31/01/2026'')) = Inr (midnight 2026 1 31)"
  "to_datetime0 True (PyStr (ustr ''02/01/2026'')) = Inr (midnight 2026 1 2)"
  "to_datetime0 False (PyStr (ustr ''02/01/2026'')) = Inr (midnight 2026 2 1)"
  "to_datetime0 True (PyStr (ustr ''abc'')) = Inl ValueError"
  "to_datetime0 True (PyStr (ustr ''01/01/2026 10:00+05:30'')) = Inr start_0530"
  "to_datetime0 True (PyStr (ustr ''31/01/2026 10:00+05:30'')) = Inr end_0530"
  "to_datetime0 True (PyStr []) = Inr NaT"
  by (simp_all add: to_datetime0_def date_part_vals split_slash_vals parse_time_val
        valid_date_def days_in_month_def is_leap_def start_0530_def end_0530_def Let_def)
     (simp_all add: ustr_simps)

lemma parse_date_vals:
  "parse_date lib0 (PyStr (ustr ''01/01/2026'')) = Inr (Some (midnight 2026 1 1))"
  "parse_date lib0 (PyStr (ustr ''31/01/2026'')) = Inr (Some (midnight 2026 1 31))"
  "parse_date lib0 (PyStr (ustr ''02/01/2026'')) = Inr (Some (midnight 2026 1 2))"
  "parse_date lib0 (PyStr (ustr ''abc'')) = Inl ValueError"
  "parse_date lib0 (Num NaN) = Inr None"
  "parse_date lib0 (PyStr (ustr ''01/01/2026 10:00+05:30'')) = Inr (Some start_0530)"
  "parse_date lib0 (PyStr (ustr ''31/01/2026 10:00+05:30'')) = Inr (Some end_0530)"
  "parse_date lib0 (PyStr []) = Inr (Some NaT)"
  by (simp_all add: parse_date_def lib0_simps to_datetime0_vals)

lemma days_from_civil_vals:
  "days_from_civil 2026 1 1 = 20454" "days_from_civil 2026 1 13 = 20466"
  "days_from_civil 2026 1 31 = 20484"
  by (simp_all add: days_from_civil_def)

lemma ns_per_day_div: "(a - k * ns_per_day) div ns_per_day = a div ns_per_day - k"
proof -
  have "(a + (- k) * ns_per_day) div ns_per_day = - k + a div ns_per_day"
    by (rule div_mult_self1) (simp add: ns_per_day_def)
  then show ?thesis by simp
qed

lemma calc_days_midnight:
  "calc_days now (Some (midnight y1 m1 d1)) (Some (midnight y2 m2 d2)) =
     Inr (PyInt (days_from_civil y2 m2 d2 - days_from_civil y1 m1 d1),
          PyInt (max 0 (min (now div ns_per_day - days_from_civil y1 m1 d1)
                            (days_from_civil y2 m2 d2 - days_from_civil y1 m1 d1))))"
proof -
  have "(days_from_civil y2 m2 d2 * ns_per_day - days_from_civil y1 m1 d1 * ns_per_day) div ns_per_day
          = days_from_civil y2 m2 d2 - days_from_civil y1 m1 d1"
    by (simp add: ns_per_day_div) (simp add: ns_per_day_def)
  then show ?thesis
    unfolding midnight_def calc_days_both by (simp add: ns_per_day_div)
qed

lemma calc_days_NaT_end:
  "calc_days now (Some (midnight y m d)) (Some NaT) =
     Inr (NaN, PyInt (max 0 (now div ns_per_day - days_from_civil y m d)))"
  by (simp add: midnight_def bind_err_simps ns_per_day_div py_min_def py_max_def py_lt_def py_gt_def)



lemma truediv_vals:
  "py_truediv (NpInt64 1200) (PyInt 30) = Inr (NpFloat64 40)"
  "py_truediv (PyInt 0) (PyInt 12) = Inr (PyFloat 0)"
  "py_truediv (PyInt 12) (PyInt 30) = Inr (PyFloat (3602879701896397 / 9007199254740992))"
  "py_truediv (PyInt 0) (NpInt64 1200) = Inr (NpFloat64 0)"
  by code_simp+

lemma mul_sub_vals:
  "py_mul (PyFloat (3602879701896397 / 9007199254740992)) (PyInt 100) = PyFloat 40"
  "py_mul (NpFloat64 0) (PyInt 100) = NpFloat64 0"
  "py_sub (NpFloat64 0) (PyFloat 40) = NpFloat64 (- 40)"
  "py_sub (NpFloat64 0) (PyInt 0) = NpFloat64 0"
  "py_sub (PyInt 0) (PyInt 0) = PyInt 0"
  by code_simp+

lemma round1_vals:
  "py_round1 (NpFloat64 40) = NpFloat64 40" "py_round1 (PyFloat 40) = PyFloat 40"
  "py_round1 (PyFloat 0) = PyFloat 0" "py_round1 (NpFloat64 0) = NpFloat64 0"
  "py_round1 (PyInt 0) = PyInt 0"
  by code_simp+

lemma format_gap_vals:
  "format_gap (NpFloat64 (- 40)) = neg_glyph @ ustr ''-40.0%''"
  "format_gap (NpFloat64 0) = pos_glyph @ ustr '' +0.0%''"
  "format_gap (PyInt 0) = pos_glyph @ ustr '' +0.0%''"
  by (simp_all add: format_gap_def py_ge_def format_1f_def round_half_even_def digits.simps ustr_simps)

lemma py_gt_vals:
  "py_gt (PyInt 30) (PyInt 0)" "py_gt (PyInt 12) (PyInt 0)" "py_gt (NpInt64 1200) (PyInt 0)"
  "\<not> py_gt (PyInt 0) (PyInt 0)" "\<not> py_gt (PyInt (- 30)) (PyInt 0)"
  by (simp_all add: py_gt_def py_lt_def)

lemma skip_row_vals:
  "\<not> skip_row lib0 bihar_row" "\<not> skip_row lib0 goa_row" "\<not> skip_row lib0 reversed_row"
  "\<not> skip_row lib0 kerala_row" "skip_row lib0 blank_row"
  "\<not> skip_row lib0 punjab_row" "\<not> skip_row lib0 odisha_row" "\<not> skip_row lib0 sikkim_row"
  by (simp_all add: skip_row_def bihar_row_def goa_row_def reversed_row_def kerala_row_def
        blank_row_def punjab_row_def odisha_row_def sikkim_row_def strip_def isspace_def ustr_simps)

lemma parse_dates_vals:
  "parse_dates lib0 (PyStr (ustr ''01/01/2026'')) (PyStr (ustr ''31/01/2026'')) =
     (Some (midnight 2026 1 1), Some (midnight 2026 1 31))"
  "parse_dates lib0 (PyStr (ustr ''31/01/2026'')) (PyStr (ustr ''01/01/2026'')) =
     (Some (midnight 2026 1 31), Some (midnight 2026 1 1))"
  "parse_dates lib0 (PyStr (ustr ''01/01/2026'')) (Num NaN) = (Some (midnight 2026 1 1), None)"
  "parse_dates lib0 (PyStr (ustr ''01/01/2026'')) (PyStr (ustr ''abc'')) = (None, None)"
  "parse_dates lib0 (PyStr (ustr ''01/01/2026'')) (PyStr []) = (Some (midnight 2026 1 1), Some NaT)"
  "parse_dates lib0 (PyStr (ustr ''01/01/2026 10:00+05:30'')) (PyStr (ustr ''31/01/2026'')) =
     (Some start_0530, Some (midnight 2026 1 31))"
  "parse_dates lib0 (PyStr (ustr ''01/01/2026 10:00+05:30''))
     (PyStr (ustr ''31/01/2026 10:00+05:30'')) = (Some start_0530, Some end_0530)"
  by (simp_all add: parse_dates_def parse_date_vals)

lemma calculate_bihar:
  assumes "now div ns_per_day = days_from_civil 2026 1 13"
  shows "calculate lib0 now bihar_row = Inr bihar_progress"
  unfolding calculate_def bihar_row_def
  by (simp add: coerce_plots_targeted_vals parse_dates_vals calc_days_midnight assms
        days_from_civil_vals py_gt_vals truediv_vals mul_sub_vals format_gap_vals
        bind_err_simps bihar_progress_def Let_def del: calc_days.simps)

lemma calculate_goa: "calculate lib0 now goa_row = Inr goa_progress"
  unfolding calculate_def goa_row_def
  by (simp add: coerce_plots_targeted_vals parse_dates_vals 
        py_gt_vals truediv_vals mul_sub_vals format_gap_vals
        bind_err_simps goa_progress_def Let_def)

lemma sheet2_row_bihar: "sheet2_row bihar_row bihar_progress = bihar_out"
  by (simp add: sheet2_row_def bihar_row_def bihar_progress_def bihar_out_def round1_vals del: py_round1.simps)

lemma sheet2_row_goa: "sheet2_row goa_row goa_progress = goa_out"
  by (simp add: sheet2_row_def goa_row_def goa_progress_def goa_out_def)

lemma generate_row_bihar:
  "now div ns_per_day = days_from_civil 2026 1 13 \<Longrightarrow>
   generate_row lib0 now bihar_row = Inr (Some bihar_out)"
  by (simp add: generate_row_def skip_row_vals calculate_bihar bind_err_simps sheet2_row_bihar)

lemma generate_row_goa: "generate_row lib0 now goa_row = Inr (Some goa_out)"
  by (simp add: generate_row_def skip_row_vals calculate_goa bind_err_simps sheet2_row_goa)

lemma generate_row_reversed: "generate_row lib0 now reversed_row = Inr (Some reversed_out)"
  unfolding generate_row_def calculate_def reversed_row_def
  by (simp add: skip_row_vals [unfolded reversed_row_def]
        coerce_plots_targeted_vals parse_dates_vals calc_days_midnight
        days_from_civil_vals py_gt_vals truediv_vals mul_sub_vals format_gap_vals
        bind_err_simps sheet2_row_def reversed_out_def round1_vals Let_def
        del: calc_days.simps py_round1.simps)


lemma now_2026_01_13_day: "now_2026_01_13 div ns_per_day = days_from_civil 2026 1 13"
  by (simp add: now_2026_01_13_def ns_per_day_def)

lemma noon_2026_01_13_day:
  "(now_2026_01_13 + 43200000000000) div ns_per_day = days_from_civil 2026 1 13"
  by (simp add: now_2026_01_13_def ns_per_day_def days_from_civil_vals)

lemma generate_row_sikkim: "generate_row lib0 now_2026_01_13 sikkim_row = Inr (Some sikkim_out)"
  unfolding generate_row_def calculate_def sikkim_row_def
  by (simp add: skip_row_vals [unfolded sikkim_row_def]
        coerce_plots_targeted_vals parse_dates_vals calc_days_NaT_end now_2026_01_13_day
        days_from_civil_vals py_gt_vals truediv_vals mul_sub_vals format_gap_vals
        bind_err_simps sheet2_row_def sikkim_out_def round1_vals Let_def
        del: calc_days.simps py_round1.simps)
     (simp add: py_gt_def py_lt_def)




subsection \<open>Dates, blank states and the serializer\<close>




lemma date_unparseable_iff: "date_unparseable L v \<longleftrightarrow> isl (parse_date L v)"
  by (cases "to_datetime L True v") (simp_all add: date_unparseable_def parse_date_def)

lemma parse_dates_fields:
  assumes "\<not> date_unparseable L s" "\<not> date_unparseable L e"
  shows "parse_dates L s e = (projr (parse_date L s), projr (parse_date L e))"
  using assms
  by (cases "parse_date L s"; cases "parse_date L e")
     (simp_all add: date_unparseable_iff parse_dates_def)

lemma parse_dates_raise:
  assumes "date_unparseable L s \<or> date_unparseable L e"
  shows "parse_dates L s e = (None, None)"
  using assms
  by (cases "parse_date L s"; cases "parse_date L e")
     (simp_all add: date_unparseable_iff parse_dates_def)

lemma parse_date_spec:
  assumes "\<not> date_unparseable L v" "projr (parse_date L v) \<noteq> Some NaT"
  shows "projr (parse_date L v) = spec_coerce_date L v"
  using assms
  by (cases "to_datetime L True v")
     (auto simp: date_unparseable_def parse_date_def spec_coerce_date_def split: if_splits)

lemma parse_date_missing: "pd_isna v \<Longrightarrow> \<not> date_unparseable L v \<and> projr (parse_date L v) = None"
  by (simp add: date_unparseable_def parse_date_def)

lemma generate_row_no_date:
  assumes "\<not> skip_row L row"
    and "fst (parse_dates L (Start_Date row) (End_Date row)) = None \<or>
         snd (parse_dates L (Start_Date row) (End_Date row)) = None"
  shows "\<exists>r. generate_row L now row = Inr (Some r) \<and>
              map_of r ''Total Days'' = Some (Num (PyInt 0)) \<and>
              map_of r ''Days Elapsed'' = Some (Num (PyInt 0))"
proof -
  let ?sp = "fst (parse_dates L (Start_Date row) (End_Date row))"
  let ?ep = "snd (parse_dates L (Start_Date row) (End_Date row))"
  from calc_days_missing [OF assms(2), of now]
  have cd: "calc_days now ?sp ?ep = Inr (PyInt 0, PyInt 0)" .
  then have "\<forall>e. calculate L now row \<noteq> Inl e" by (simp add: calculate_Inl)
  then obtain p where p: "calculate L now row = Inr p" by (cases "calculate L now row") auto
  note f = calculate_fields [OF p]
  from f(2) have "start_date_parsed p = ?sp" "end_date_parsed p = ?ep"
    by (metis fst_conv, metis snd_conv)
  with f(3) cd have "total_days p = PyInt 0 \<and> days_elapsed p = PyInt 0" by auto
  then have "total_days p = PyInt 0" "days_elapsed p = PyInt 0" by simp_all
  with p assms(1) show ?thesis
    by (intro exI [of _ "sheet2_row row p"])
       (simp add: generate_row_def bind_err_simps sheet2_row_fields)
qed

text \<open>What \<open>convert_types\<close> returns for a value of each class.\<close>

lemma convert_types_by_class:
  "convert_types L PyNone = JNull"
  "convert_types L (Num NaN) = JNull"
  "convert_types L (Stamp NaT) = JNull"
  "convert_types L (Stamp (Timestamp t)) = JStr (strftime L (ustr ''%Y-%m-%d %H:%M:%S'') t)"
  "convert_types L (Stamp (TimestampTz t z)) =
     JStr (strftime L (ustr ''%Y-%m-%d %H:%M:%S'') (local_ns t z))"
  "convert_types L (Num (PyInt i)) = JInt i"
  "convert_types L (Num (PyFloat x)) = JFloat x"
  "convert_types L (Num (NpFloat64 x)) = JFloat x"
  "convert_types L (Num (NpInt64 i)) = JStr (show_int i)"
  "convert_types L (PyStr s) = JStr s"
  by (simp_all add: convert_types_def)

lemma show_int_1200: "show_int 1200 = ustr ''1200''"
  by (simp add: show_int_def digits.simps ustr_simps)

section \<open>The claims\<close>

text \<open>
  In the theorems below, \<open>generate_row L now row = Inr (Some r)\<close> says that the iteration
  for \<open>row\<close> appends the dictionary \<open>r\<close>, \<open>Inr None\<close> that it skips the row, and \<open>Inl e\<close> that
  it raises \<open>e\<close>, which ends the function. By \<open>generate_sheet2_data_Inr\<close> the function
  returns exactly the dictionaries of the rows that are not skipped, in the order of the
  rows, when none of them raises. \<open>L\<close> is any instance of the library functions and \<open>now\<close>
  any value of the clock.
\<close>

text \<open>
  The part of claim C1 that holds on the code: in every emitted record whose
  \<^verbatim>\<open>Total Days\<close> is greater than zero, \<^verbatim>\<open>Days Elapsed\<close> is at least zero and at most
  \<^verbatim>\<open>Total Days\<close>; and both are the integer 0 when a parsed date is \<^verbatim>\<open>None\<close>.
\<close>

lemma days_elapsed_within_total_days:
  assumes "generate_row L now row = Inr (Some r)"
  shows "\<exists>td de. map_of r ''Total Days'' = Some (Num td) \<and>
           map_of r ''Days Elapsed'' = Some (Num de) \<and>
           (py_gt td (PyInt 0) \<longrightarrow> py_ge de (PyInt 0) \<and> py_ge td de) \<and>
           (fst (parse_dates L (Start_Date row) (End_Date row)) = None \<or>
            snd (parse_dates L (Start_Date row) (End_Date row)) = None \<longrightarrow>
              td = PyInt 0 \<and> de = PyInt 0)"
proof -
  from generate_row_Some [OF assms] obtain p
    where p: "calculate L now row = Inr p" and r: "r = sheet2_row row p" by blast
  note f = calculate_fields [OF p]
  let ?sp = "start_date_parsed p" and ?ep = "end_date_parsed p"
  note cd = f(3)
  from calc_days_elapsed [OF cd] obtain d
    where d: "days_elapsed p = PyInt d" "0 \<le> d" by auto
  have bound: "py_ge (PyInt d) (PyInt 0) \<and> py_ge (total_days p) (PyInt d)" if "py_gt (total_days p) (PyInt 0)"
  proof -
    from calc_days_total [OF cd] that obtain t where t: "total_days p = PyInt t"
      by (auto simp: py_gt_def py_lt_def)
    with that have "0 < t" by (simp add: py_gt_def py_lt_def)
    moreover from calc_days_le_total [of now ?sp ?ep t d] cd t d have "d \<le> max 0 t" by simp
    ultimately show ?thesis using t d by (simp add: py_ge_def)
  qed
  have missing: "total_days p = PyInt 0 \<and> days_elapsed p = PyInt 0"
    if "fst (parse_dates L (Start_Date row) (End_Date row)) = None \<or>
        snd (parse_dates L (Start_Date row) (End_Date row)) = None"
  proof -
    from that f(2) have "?sp = None \<or> ?ep = None" by (metis fst_conv snd_conv)
    from calc_days_missing [OF this, of now] cd show ?thesis by simp
  qed
  show ?thesis
    using bound missing d by (simp add: r sheet2_row_fields)
qed

text \<open>
  Claim C1 fails on the code when a date is missing as an empty text: the parser reads
  it as NaT, which line 73 takes for a date. With the start date \<^verbatim>\<open>01/01/2026\<close> and an empty
  end date, on 13 January 2026, \<^verbatim>\<open>Total Days\<close> is not-a-number (serialized as null) and
  \<^verbatim>\<open>Days Elapsed\<close> is 12, where the claim has 0 and 0.
\<close>

theorem empty_end_date_gives_nan_total_days:
  "\<not> pd_isna (End_Date sikkim_row) \<and>
   parse_dates lib0 (Start_Date sikkim_row) (End_Date sikkim_row) =
     (Some (midnight 2026 1 1), Some NaT) \<and>
   generate_sheet2_data lib0 now_2026_01_13 (Some [sikkim_row]) = Inr (Some [sikkim_out]) \<and>
   map_of sikkim_out ''Total Days'' = Some (Num NaN) \<and>
   map_of sikkim_out ''Days Elapsed'' = Some (Num (PyInt 12)) \<and>
   convert_types lib0 (Num NaN) = JNull"
proof -
  have "generate_sheet2_data lib0 now_2026_01_13 (Some [sikkim_row]) = Inr (Some [sikkim_out])"
    by (simp add: generate_sheet2_data_def generate_row_sikkim bind_err_simps)
  moreover have "parse_dates lib0 (Start_Date sikkim_row) (End_Date sikkim_row) =
     (Some (midnight 2026 1 1), Some NaT)" "\<not> pd_isna (End_Date sikkim_row)"
    by (simp_all add: sikkim_row_def parse_dates_vals)
  moreover have "map_of sikkim_out ''Total Days'' = Some (Num NaN)"
    "map_of sikkim_out ''Days Elapsed'' = Some (Num (PyInt 12))"
    by (simp_all add: sikkim_out_def)
  ultimately show ?thesis by (simp add: convert_types_def)
qed




text \<open>
  Claim C3 fails on the code for integers of class \<^verbatim>\<open>numpy.int64\<close>. The target count of the
  scenario row is the \<^verbatim>\<open>numpy.int64\<close> 1200 that \<^verbatim>\<open>pd.to_numeric\<close> returned; \<open>convert_types\<close>
  does not take it for an integer and returns the string \<^verbatim>\<open>1200\<close>.
\<close>

theorem numpy_integer_serialized_as_string:
  "generate_sheet2_data lib0 now_2026_01_13 (Some [bihar_row]) = Inr (Some [bihar_out]) \<and>
   map_of bihar_out ''b'' = Some (Num (NpInt64 1200)) \<and>
   map_of (convert_row lib0 bihar_out) ''b'' = Some (JStr (ustr ''1200'')) \<and>
   convert_types L (Num (NpInt64 1200)) = JStr (ustr ''1200'') \<and>
   convert_types L (Num (NpInt64 1200)) \<noteq> JInt 1200"
  by (simp add: generate_sheet2_data_def bind_err_simps generate_row_bihar [OF now_2026_01_13_day]
        map_of_convert_row convert_types_by_class show_int_1200)
     (simp add: bihar_out_def convert_types_by_class show_int_1200)

text \<open>
  Claim C4 fails as stated. With the start date \<^verbatim>\<open>01/01/2026\<close> and the end date \<^verbatim>\<open>abc\<close>, on
  which the parser raises, the start date is lost too, although on its own it is
  1 January 2026. And an end date that is the empty text is not coerced to no date: it
  stays the NaT the parser returned.
\<close>

theorem unparseable_end_date_clears_start_date:
  "spec_coerce_date lib0 (PyStr (ustr ''01/01/2026'')) = Some (midnight 2026 1 1) \<and>
   parse_dates lib0 (PyStr (ustr ''01/01/2026'')) (PyStr (ustr ''abc'')) = (None, None) \<and>
   fst (parse_dates lib0 (PyStr (ustr ''01/01/2026'')) (PyStr (ustr ''abc''))) \<noteq>
     spec_coerce_date lib0 (PyStr (ustr ''01/01/2026'')) \<and>
   spec_coerce_date lib0 (PyStr []) = None \<and>
   snd (parse_dates lib0 (PyStr (ustr ''01/01/2026'')) (PyStr [])) = Some NaT"
  by (simp add: parse_dates_vals spec_coerce_date_def lib0_simps to_datetime0_vals midnight_def)

text \<open>
  Claim C4, as amended. Both date fields are parsed day first. As long as the parser
  raises on neither field, the result for a field does not depend on the other cell; it
  is no date for a cell that \<^verbatim>\<open>pd.isna\<close> reports missing, and otherwise what the
  specification asks for, unless the parser returned NaT. When the parser raises on either
  field, both fields get no date. Whether the row is skipped depends on its state only,
  and a row with a state and with a missing date cell, or one on which the parser raises,
  is emitted, with 0 for both day counts.
\<close>

theorem date_fields_coercion:
  "(\<not> date_unparseable L e \<and> \<not> date_unparseable L e' \<longrightarrow>
      fst (parse_dates L s e) = fst (parse_dates L s e')) \<and>
   (\<not> date_unparseable L s \<and> \<not> date_unparseable L s' \<longrightarrow>
      snd (parse_dates L s e) = snd (parse_dates L s' e)) \<and>
   (\<not> date_unparseable L s \<and> \<not> date_unparseable L e \<and>
    fst (parse_dates L s e) \<noteq> Some NaT \<longrightarrow>
      fst (parse_dates L s e) = spec_coerce_date L s) \<and>
   (\<not> date_unparseable L s \<and> \<not> date_unparseable L e \<and>
    snd (parse_dates L s e) \<noteq> Some NaT \<longrightarrow>
      snd (parse_dates L s e) = spec_coerce_date L e) \<and>
   (pd_isna s \<and> \<not> date_unparseable L e \<longrightarrow> fst (parse_dates L s e) = None) \<and>
   (pd_isna e \<and> \<not> date_unparseable L s \<longrightarrow> snd (parse_dates L s e) = None) \<and>
   (date_unparseable L s \<or> date_unparseable L e \<longrightarrow> parse_dates L s e = (None, None)) \<and>
   (generate_row L now row = Inr None \<longleftrightarrow> skip_row L row) \<and>
   (\<not> skip_row L row \<and>
    (pd_isna (Start_Date row) \<or> pd_isna (End_Date row) \<or>
     date_unparseable L (Start_Date row) \<or> date_unparseable L (End_Date row)) \<longrightarrow>
      (\<exists>r. generate_row L now row = Inr (Some r) \<and>
           map_of r ''Total Days'' = Some (Num (PyInt 0)) \<and>
           map_of r ''Days Elapsed'' = Some (Num (PyInt 0))))"
proof -
  have 1: "fst (parse_dates L s e) = fst (parse_dates L s e')"
    if "\<not> date_unparseable L e" "\<not> date_unparseable L e'"
  proof (cases "date_unparseable L s")
    case True then show ?thesis by (simp add: parse_dates_raise)
  next
    case False with that show ?thesis by (simp add: parse_dates_fields)
  qed
  have 2: "snd (parse_dates L s e) = snd (parse_dates L s' e)"
    if "\<not> date_unparseable L s" "\<not> date_unparseable L s'"
  proof (cases "date_unparseable L e")
    case True then show ?thesis by (simp add: parse_dates_raise)
  next
    case False with that show ?thesis by (simp add: parse_dates_fields)
  qed
  have 3: "fst (parse_dates L s e) = spec_coerce_date L s"
    if "\<not> date_unparseable L s" "\<not> date_unparseable L e" "fst (parse_dates L s e) \<noteq> Some NaT"
    using that parse_date_spec [of L s] by (simp add: parse_dates_fields)
  have 4: "snd (parse_dates L s e) = spec_coerce_date L e"
    if "\<not> date_unparseable L s" "\<not> date_unparseable L e" "snd (parse_dates L s e) \<noteq> Some NaT"
    using that parse_date_spec [of L e] by (simp add: parse_dates_fields)
  have 5: "fst (parse_dates L s e) = None" if "pd_isna s" "\<not> date_unparseable L e"
    using that parse_date_missing [of s L] by (simp add: parse_dates_fields)
  have 6: "snd (parse_dates L s e) = None" if "pd_isna e" "\<not> date_unparseable L s"
    using that parse_date_missing [of e L] by (simp add: parse_dates_fields)
  have 9: "\<exists>r. generate_row L now row = Inr (Some r) \<and>
           map_of r ''Total Days'' = Some (Num (PyInt 0)) \<and>
           map_of r ''Days Elapsed'' = Some (Num (PyInt 0))"
    if s: "\<not> skip_row L row"
      and m: "pd_isna (Start_Date row) \<or> pd_isna (End_Date row) \<or>
         date_unparseable L (Start_Date row) \<or> date_unparseable L (End_Date row)"
  proof -
    have "fst (parse_dates L (Start_Date row) (End_Date row)) = None \<or>
          snd (parse_dates L (Start_Date row) (End_Date row)) = None"
    proof (cases "date_unparseable L (Start_Date row) \<or> date_unparseable L (End_Date row)")
      case True then show ?thesis by (simp add: parse_dates_raise)
    next
      case False
      with m have "pd_isna (Start_Date row) \<or> pd_isna (End_Date row)" by blast
      with False show ?thesis
        using parse_date_missing [of "Start_Date row" L] parse_date_missing [of "End_Date row" L]
        by (auto simp: parse_dates_fields)
    qed
    from generate_row_no_date [OF s this] show ?thesis .
  qed
  show ?thesis
    using 1 2 3 4 5 6 9 by (simp add: parse_dates_raise generate_row_None)
qed

theorem date_fields_coercion_witness:
  "\<not> date_unparseable lib0 (PyStr (ustr ''02/01/2026'')) \<and>
   \<not> date_unparseable lib0 (PyStr (ustr ''31/01/2026'')) \<and>
   \<not> date_unparseable lib0 (Num NaN) \<and> pd_isna (Num NaN) \<and>
   parse_dates lib0 (PyStr (ustr ''02/01/2026'')) (Num NaN) = (Some (midnight 2026 1 2), None) \<and>
   parse_dates lib0 (Num NaN) (PyStr (ustr ''02/01/2026'')) = (None, Some (midnight 2026 1 2)) \<and>
   parse_dates lib0 (PyStr (ustr ''02/01/2026'')) (PyStr (ustr ''31/01/2026'')) =
     (Some (midnight 2026 1 2), Some (midnight 2026 1 31)) \<and>
   spec_coerce_date lib0 (PyStr (ustr ''02/01/2026'')) = Some (midnight 2026 1 2) \<and>
   date_unparseable lib0 (PyStr (ustr ''abc'')) \<and>
   parse_dates lib0 (PyStr (ustr ''02/01/2026'')) (PyStr (ustr ''abc'')) = (None, None) \<and>
   \<not> skip_row lib0 goa_row \<and> pd_isna (End_Date goa_row) \<and>
   generate_row lib0 now_2026_01_13 goa_row = Inr (Some goa_out) \<and>
   map_of goa_out ''Total Days'' = Some (Num (PyInt 0))"
proof -
  have u: "\<not> date_unparseable lib0 (PyStr (ustr ''02/01/2026''))"
    "\<not> date_unparseable lib0 (PyStr (ustr ''31/01/2026''))"
    "\<not> date_unparseable lib0 (Num NaN)" "date_unparseable lib0 (PyStr (ustr ''abc''))"
    by (simp_all add: date_unparseable_def lib0_simps to_datetime0_vals)
  have c: "spec_coerce_date lib0 (PyStr (ustr ''02/01/2026'')) = Some (midnight 2026 1 2)"
    by (simp add: spec_coerce_date_def lib0_simps to_datetime0_vals midnight_def)
  have p: "parse_dates lib0 (PyStr (ustr ''02/01/2026'')) (Num NaN) = (Some (midnight 2026 1 2), None)"
    "parse_dates lib0 (Num NaN) (PyStr (ustr ''02/01/2026'')) = (None, Some (midnight 2026 1 2))"
    "parse_dates lib0 (PyStr (ustr ''02/01/2026'')) (PyStr (ustr ''31/01/2026'')) =
     (Some (midnight 2026 1 2), Some (midnight 2026 1 31))"
    by (simp_all add: parse_dates_def parse_date_vals)
  have g: "pd_isna (End_Date goa_row)" "map_of goa_out ''Total Days'' = Some (Num (PyInt 0))"
    by (simp_all add: goa_row_def goa_out_def)
  from date_fields_coercion [of lib0 "PyStr (ustr ''abc'')" "PyStr (ustr ''abc'')"
         "PyStr (ustr ''02/01/2026'')" "PyStr (ustr ''02/01/2026'')" now_2026_01_13 goa_row]
  have "parse_dates lib0 (PyStr (ustr ''02/01/2026'')) (PyStr (ustr ''abc'')) = (None, None)"
    using u by blast
  with u c p g skip_row_vals(2) generate_row_goa [of now_2026_01_13] show ?thesis by simp
qed





text \<open>
  Claim C7. For the row with state \<^verbatim>\<open>Bihar\<close>, target \<^verbatim>\<open>1,200\<close>, start \<^verbatim>\<open>01/01/2026\<close> and end
  \<^verbatim>\<open>31/01/2026\<close>, at any instant of 13 January 2026, the total is 30 days, 12 days have
  elapsed, the required rate is 40.0, the required percentage 40.0, the actual percentage
  0.0, the gap -40.0, and the label is the negative indicator followed by \<^verbatim>\<open>-40.0%\<close>. The
  floats are the binary64 results, not only their exact counterparts.
\<close>

theorem bihar_scenario:
  assumes "now div ns_per_day = days_from_civil 2026 1 13"
  shows "\<exists>p. calculate lib0 now bihar_row = Inr p \<and>
           plots_targeted p = NpInt64 1200 \<and>
           total_days p = PyInt 30 \<and> days_elapsed p = PyInt 12 \<and>
           required_per_day p = NpFloat64 40 \<and> required_percentage p = PyFloat 40 \<and>
           actual_percentage p = NpFloat64 0 \<and> gap p = NpFloat64 (- 40) \<and>
           gap_formatted p = neg_glyph @ ustr ''-40.0%'' \<and>
           generate_sheet2_data lib0 now (Some [bihar_row]) = Inr (Some [sheet2_row bihar_row p]) \<and>
           sheet2_row bihar_row p =
             [(''a'', PyStr (ustr ''Bihar'')),
              (''b'', Num (NpInt64 1200)),
              (''c'', Num (PyInt 0)),
              (''d'', PyStr (ustr ''01/01/2026'')),
              (''e'', PyStr (ustr ''31/01/2026'')),
              (''days'', Num (PyInt 12)),
              (''Total Days'', Num (PyInt 30)),
              (''Days Elapsed'', Num (PyInt 12)),
              (''Required /day'', Num (NpFloat64 40)),
              (''Actual /day'', Num (PyFloat 0)),
              (''Required % (Time elapsed)'', Num (PyFloat 40)),
              (''Actual % (Survey done)'', Num (NpFloat64 0)),
              (''Gap'', PyStr (neg_glyph @ ustr ''-40.0%''))]"
proof -
  have "generate_sheet2_data lib0 now (Some [bihar_row]) = Inr (Some [bihar_out])"
    by (simp add: generate_sheet2_data_def bind_err_simps generate_row_bihar [OF assms])
  then show ?thesis
    using calculate_bihar [OF assms]
    by (intro exI [of _ bihar_progress]) (simp add: sheet2_row_bihar, simp add: bihar_progress_def bihar_out_def)
qed

text \<open>The same at noon of that day.\<close>

theorem bihar_scenario_witness:
  "(now_2026_01_13 + 43200000000000) div ns_per_day = days_from_civil 2026 1 13 \<and>
   calculate lib0 (now_2026_01_13 + 43200000000000) bihar_row = Inr bihar_progress \<and>
   generate_sheet2_data lib0 (now_2026_01_13 + 43200000000000) (Some [bihar_row]) =
     Inr (Some [bihar_out])"
proof -
  from bihar_scenario [OF noon_2026_01_13_day] obtain p
    where p: "calculate lib0 (now_2026_01_13 + 43200000000000) bihar_row = Inr p"
      and g: "generate_sheet2_data lib0 (now_2026_01_13 + 43200000000000) (Some [bihar_row]) =
                Inr (Some [sheet2_row bihar_row p])"
      and s: "sheet2_row bihar_row p = bihar_out"
    unfolding bihar_out_def by blast
  from p calculate_bihar [OF noon_2026_01_13_day] have "p = bihar_progress" by simp
  with p g s noon_2026_01_13_day show ?thesis by simp
qed

text \<open>
  Claim C8 fails as stated: when the gap is at least zero the label has a space between
  the indicator and the sign. Here the gap is 0.
\<close>

theorem positive_gap_label_has_a_space:
  "calculate lib0 now_2026_01_13 goa_row = Inr goa_progress \<and>
   py_ge (gap goa_progress) (PyInt 0) \<and>
   gap_formatted goa_progress \<noteq>
     pos_glyph @ ustr ''+'' @ format_1f (gap goa_progress) @ ustr ''%''"
  by (simp add: calculate_goa)
     (simp add: goa_progress_def py_ge_def pos_glyph_def format_1f_def round_half_even_def
        digits.simps ustr_simps)

text \<open>
  Claim C8, as amended. The gap is the actual percentage minus the required percentage,
  both unrounded. The label is the positive indicator, a space, \<^verbatim>\<open>+\<close>, the gap and \<^verbatim>\<open>%\<close>
  when the gap is at least zero, and the negative indicator, the gap and \<^verbatim>\<open>%\<close> when it is
  below zero; one of the two holds. In the label the gap is written with one decimal, at
  most 0.05 from its value. The four stored rates and percentages are the computed ones
  rounded by \<^verbatim>\<open>round(x, 1)\<close>.
\<close>

theorem gap_and_gap_label:
  assumes "calculate L now row = Inr p"
  shows "gap p = py_sub (actual_percentage p) (required_percentage p) \<and>
         (py_ge (gap p) (PyInt 0) \<longrightarrow>
            gap_formatted p = pos_glyph @ ustr '' +'' @ format_1f (gap p) @ ustr ''%'') \<and>
         (py_lt (gap p) (PyInt 0) \<longrightarrow>
            gap_formatted p = neg_glyph @ format_1f (gap p) @ ustr ''%'') \<and>
         (py_ge (gap p) (PyInt 0) \<noteq> py_lt (gap p) (PyInt 0)) \<and>
         (\<exists>v t. num_val (gap p) = Some v \<and>
            format_1f (gap p) =
              (if v < 0 then [45] else []) @ digits (t div 10) @ [46] @ digits (t mod 10) \<and>
            \<bar>of_nat t / 10 - \<bar>v\<bar>\<bar> \<le> 1 / 20 \<and> length (digits (t mod 10)) = 1) \<and>
         map_of (sheet2_row row p) ''Gap'' = Some (PyStr (gap_formatted p)) \<and>
         map_of (sheet2_row row p) ''Required /day'' = Some (Num (py_round1 (required_per_day p))) \<and>
         map_of (sheet2_row row p) ''Actual /day'' = Some (Num (py_round1 (actual_per_day p))) \<and>
         map_of (sheet2_row row p) ''Required % (Time elapsed)'' =
            Some (Num (py_round1 (required_percentage p))) \<and>
         map_of (sheet2_row row p) ''Actual % (Survey done)'' =
            Some (Num (py_round1 (actual_percentage p)))"
proof -
  note f = calculate_fields [OF assms]
  have g: "gap p \<noteq> NaN" by (rule gap_not_NaN [OF assms])
  then obtain v where v: "num_val (gap p) = Some v" by (cases "gap p") auto
  have lt: "\<not> py_ge (gap p) (PyInt 0)" if "py_lt (gap p) (PyInt 0)"
    using py_ge_or_lt [OF g] that by simp
  show ?thesis
    using f(9) f(10) py_ge_or_lt [OF g] lt v format_1f_rounds [OF v]
    by (auto simp: format_gap_def sheet2_row_fields)
qed

theorem gap_and_gap_label_witness:
  "calculate lib0 now_2026_01_13 bihar_row = Inr bihar_progress \<and>
   py_lt (gap bihar_progress) (PyInt 0) \<and>
   gap_formatted bihar_progress = neg_glyph @ format_1f (gap bihar_progress) @ ustr ''%'' \<and>
   calculate lib0 now_2026_01_13 goa_row = Inr goa_progress \<and>
   py_ge (gap goa_progress) (PyInt 0) \<and>
   gap_formatted goa_progress = pos_glyph @ ustr '' +'' @ format_1f (gap goa_progress) @ ustr ''%''"
proof -
  have b: "calculate lib0 now_2026_01_13 bihar_row = Inr bihar_progress"
    by (rule calculate_bihar [OF now_2026_01_13_day])
  have g: "calculate lib0 now_2026_01_13 goa_row = Inr goa_progress"
    by (rule calculate_goa)
  have lt: "py_lt (gap bihar_progress) (PyInt 0)"
    by (simp add: bihar_progress_def py_lt_def)
  have ge: "py_ge (gap goa_progress) (PyInt 0)"
    by (simp add: goa_progress_def py_ge_def)
  from gap_and_gap_label [OF b] gap_and_gap_label [OF g] b g lt ge
  show ?thesis by simp
qed




text \<open>
  Claim C10. In every emitted record \<^verbatim>\<open>Days Elapsed\<close> (and its duplicate \<^verbatim>\<open>days\<close>) is a
  non-negative integer; when \<^verbatim>\<open>Total Days\<close> is negative it is 0.
\<close>

theorem days_elapsed_never_negative:
  assumes "generate_row L now row = Inr (Some r)"
  shows "\<exists>d td. map_of r ''Days Elapsed'' = Some (Num (PyInt d)) \<and>
           map_of r ''days'' = Some (Num (PyInt d)) \<and> 0 \<le> d \<and>
           map_of r ''Total Days'' = Some (Num td) \<and>
           (py_lt td (PyInt 0) \<longrightarrow> d = 0)"
proof -
  from generate_row_Some [OF assms] obtain p
    where p: "calculate L now row = Inr p" and r: "r = sheet2_row row p" by blast
  note f = calculate_fields [OF p]
  let ?sp = "start_date_parsed p" and ?ep = "end_date_parsed p"
  note cd = f(3)
  from calc_days_elapsed [OF cd] obtain d
    where d: "days_elapsed p = PyInt d" "0 \<le> d" by auto
  have "d = 0" if "py_lt (total_days p) (PyInt 0)"
  proof -
    from calc_days_total [OF cd] that obtain t where t: "total_days p = PyInt t"
      by (auto simp: py_lt_def)
    with that have "t < 0" by (simp add: py_lt_def)
    moreover from calc_days_le_total [of now ?sp ?ep t d] cd t d have "d \<le> max 0 t" by simp
    ultimately show ?thesis using d by simp
  qed
  then show ?thesis using d by (simp add: r sheet2_row_fields)
qed

theorem days_elapsed_never_negative_witness:
  "generate_row lib0 now_2026_01_13 reversed_row = Inr (Some reversed_out) \<and>
   map_of reversed_out ''Total Days'' = Some (Num (PyInt (- 30))) \<and>
   py_lt (PyInt (- 30)) (PyInt 0) \<and>
   map_of reversed_out ''Days Elapsed'' = Some (Num (PyInt 0)) \<and>
   map_of reversed_out ''days'' = Some (Num (PyInt 0))"
proof -
  have r: "generate_row lib0 now_2026_01_13 reversed_row = Inr (Some reversed_out)"
    by (rule generate_row_reversed)
  from days_elapsed_never_negative [OF r] r show ?thesis
    by (auto simp: reversed_out_def py_lt_def)
qed

end
